theory Spec2Isabelle
  imports Complex_Main
begin

section \<open>Shift-based batch normalisation (Train-time/shift\_batch\_norm.py)\<close>

text \<open>
  The module defines one Lasagne layer, \<^verbatim>\<open>BatchNormSfhitPow2Layer\<close>, and the helper
  \<^verbatim>\<open>batch_norm_pow_2\<close> that stacks it on an existing layer.  The layer's code is a
  composition of Theano tensor primitives; each primitive the code calls is given here as
  a function on tensors, and the layer's two methods are written as the same composition,
  line by line.

  Modelling decisions:
  \<^item> Tensor elements are real numbers: \<^verbatim>\<open>floatX\<close> arithmetic is taken as exact, with two
    exceptions.  \<^verbatim>\<open>T.log2\<close> is a parameter \<open>lg\<close> of every function that takes a logarithm:
    the exact logarithm \<open>log 2\<close>, or a rounded one such as \<open>float64_log2\<close> below.  And
    lines 83 to 87, where \<^verbatim>\<open>T.log2\<close> meets 0, are also given over values that can be
    infinite or NaN.
  \<^item> \<^verbatim>\<open>T.round\<close> is Theano's: its treatment of ties depends on the rounding mode, and the
    default mode on the version of the library.  It is a parameter \<open>rnd\<close> of every
    function that rounds; \<open>round_half_even\<close> and \<open>round_half_away_from_zero\<close> below are
    the two modes.
  \<^item> The \<^verbatim>\<open>default_update\<close> of the cloned shared variables is the write to the layer's
    state that one evaluation of the training graph performs: \<open>get_output_for\<close> returns
    the output together with the layer after the call.
  \<^item> Theano checks at run time that the dimensions of the operands of an element-wise
    operation agree, unless a dimension is marked as broadcast.  The tensor operations
    here are total and broadcast every dimension of size 1, as NumPy does; the checks are
    followed separately, on shapes and broadcast patterns, and \<open>get_output_for_checked\<close>
    is the call that raises when a check fails.  A negative axis counts from the last
    dimension in the constructor (where Python's list indexing decides) and in the
    reduction, and marks no dimension in \<^verbatim>\<open>T.addbroadcast\<close>.
  \<^item> Of the framework's base class the stored input shape and input layer are kept, and
    the check of its constructor that no given size of the input shape is 0 or negative;
    the registry of parameters and their tags that \<^verbatim>\<open>add_param\<close> fills is left out, and the
    three parameters are fields of the layer.
\<close>

subsection \<open>Tensors\<close>

text \<open>
  A tensor is a shape and its elements in row-major order, as a NumPy array is.
  \<open>indices s\<close> lists the multi-indices of shape \<open>s\<close> in that order.
\<close>

record tensor =
  shape :: "nat list"
  elems :: "real list"

definition indices :: "nat list \<Rightarrow> nat list list" where
  "indices s = product_lists (map (\<lambda>n. [0..<n]) s)"

definition wf_tensor :: "tensor \<Rightarrow> bool" where
  "wf_tensor t \<longleftrightarrow> length (elems t) = length (indices (shape t))"

text \<open>The element at a multi-index (\<open>0\<close> is returned for an index outside the shape, which
  no operation below reads when the shapes of its arguments agree).\<close>

definition elem :: "tensor \<Rightarrow> nat list \<Rightarrow> real" where
  "elem t i = (case map_of (zip (indices (shape t)) (elems t)) i of
                 Some v \<Rightarrow> v | None \<Rightarrow> 0)"

definition tabulate :: "nat list \<Rightarrow> (nat list \<Rightarrow> real) \<Rightarrow> tensor" where
  "tabulate s g = \<lparr>shape = s, elems = map g (indices s)\<rparr>"

text \<open>Element-wise application of a scalar function: \<^verbatim>\<open>T.abs_\<close>, \<^verbatim>\<open>T.log2\<close>,
  \<^verbatim>\<open>T.sqrt\<close>, \<^verbatim>\<open>T.inv\<close>, \<^verbatim>\<open>T.round\<close>, and every operation between a tensor and a
  Python scalar.\<close>

definition tmap :: "(real \<Rightarrow> real) \<Rightarrow> tensor \<Rightarrow> tensor" where
  "tmap f t = \<lparr>shape = shape t, elems = map f (elems t)\<rparr>"

definition tabs :: "tensor \<Rightarrow> tensor" where
  "tabs t = tmap abs t"

definition tlog2 :: "(real \<Rightarrow> real) \<Rightarrow> tensor \<Rightarrow> tensor" where
  "tlog2 lg t = tmap lg t"

definition tsqrt :: "tensor \<Rightarrow> tensor" where
  "tsqrt t = tmap sqrt t"

definition tinv :: "tensor \<Rightarrow> tensor" where
  "tinv t = tmap (\<lambda>v. 1 / v) t"

definition tround :: "(real \<Rightarrow> int) \<Rightarrow> tensor \<Rightarrow> tensor" where
  "tround rnd t = tmap (\<lambda>v. real_of_int (rnd v)) t"

text \<open>\<^verbatim>\<open>T.pow(c, t)\<close>, \<^verbatim>\<open>c * t\<close>, \<^verbatim>\<open>t + c\<close> and \<^verbatim>\<open>T.eq(t, c)\<close> for a scalar \<open>c\<close>.\<close>

definition tpow_s :: "real \<Rightarrow> tensor \<Rightarrow> tensor" where
  "tpow_s c t = tmap (\<lambda>v. c powr v) t"

definition tmul_s :: "real \<Rightarrow> tensor \<Rightarrow> tensor" where
  "tmul_s c t = tmap (\<lambda>v. c * v) t"

definition tadd_s :: "tensor \<Rightarrow> real \<Rightarrow> tensor" where
  "tadd_s t c = tmap (\<lambda>v. v + c) t"

definition teq_s :: "tensor \<Rightarrow> real \<Rightarrow> tensor" where
  "teq_s t c = tmap (\<lambda>v. if v = c then 1 else 0) t"

text \<open>
  Element-wise operations between two tensors of the same rank broadcast every dimension
  of size 1: the result has the other operand's size there, and the operand of size 1 is
  read at position 0.
\<close>

definition bshape :: "nat list \<Rightarrow> nat list \<Rightarrow> nat list" where
  "bshape s1 s2 = map2 (\<lambda>n m. if n = 1 then m else n) s1 s2"

definition bproj :: "nat list \<Rightarrow> nat list \<Rightarrow> nat list" where
  "bproj s i = map2 (\<lambda>n k. if n = 1 then 0 else k) s i"

definition tbin :: "(real \<Rightarrow> real \<Rightarrow> real) \<Rightarrow> tensor \<Rightarrow> tensor \<Rightarrow> tensor" where
  "tbin f a b =
     tabulate (bshape (shape a) (shape b))
       (\<lambda>i. f (elem a (bproj (shape a) i)) (elem b (bproj (shape b) i)))"

definition tadd :: "tensor \<Rightarrow> tensor \<Rightarrow> tensor" where
  "tadd a b = tbin (+) a b"

definition tsub :: "tensor \<Rightarrow> tensor \<Rightarrow> tensor" where
  "tsub a b = tbin (-) a b"

definition tmul :: "tensor \<Rightarrow> tensor \<Rightarrow> tensor" where
  "tmul a b = tbin (*) a b"

text \<open>\<^verbatim>\<open>T.switch(cond, c, t)\<close> with a scalar \<open>c\<close>: \<open>c\<close> where \<open>cond\<close> is non-zero, the
  element of \<open>t\<close> elsewhere.\<close>

definition tswitch_s :: "tensor \<Rightarrow> real \<Rightarrow> tensor \<Rightarrow> tensor" where
  "tswitch_s cond c t = tbin (\<lambda>p v. if p \<noteq> 0 then c else v) cond t"

text \<open>
  Reduction axes are Python integers; a negative axis counts from the last dimension.
  \<open>is_reduced axes n k\<close>: dimension \<open>k\<close> of a rank-\<open>n\<close> tensor is one of \<open>axes\<close>.
\<close>

definition is_reduced :: "int list \<Rightarrow> nat \<Rightarrow> nat \<Rightarrow> bool" where
  "is_reduced axes n k \<longleftrightarrow> int k \<in> set axes \<or> int k - int n \<in> set axes"

text \<open>Every axis is a dimension index of a rank-\<open>n\<close> shape, counted from either end.\<close>

definition axes_in_range :: "int list \<Rightarrow> nat \<Rightarrow> bool" where
  "axes_in_range axes0 n \<longleftrightarrow> list_all (\<lambda>a. - int n \<le> a \<and> a < int n) axes0"

definition keep_shape :: "int list \<Rightarrow> nat list \<Rightarrow> nat list" where
  "keep_shape axes s = map (\<lambda>k. if is_reduced axes (length s) k then 1 else s ! k) [0..<length s]"

definition zero_axes :: "int list \<Rightarrow> nat list \<Rightarrow> nat list" where
  "zero_axes axes i = map (\<lambda>k. if is_reduced axes (length i) k then 0 else i ! k) [0..<length i]"

text \<open>The positions of \<open>t\<close> that are averaged into position \<open>j\<close> of the reduced tensor.\<close>

definition axis_group :: "int list \<Rightarrow> nat list \<Rightarrow> nat list \<Rightarrow> nat list list" where
  "axis_group axes s j = filter (\<lambda>i. zero_axes axes i = j) (indices s)"

text \<open>\<^verbatim>\<open>t.mean(axes, keepdims=True)\<close>: the sum over the reduced axes divided by the number
  of elements summed; the reduced axes stay, with size 1.\<close>

definition tmean :: "tensor \<Rightarrow> int list \<Rightarrow> tensor" where
  "tmean t axes =
     tabulate (keep_shape axes (shape t))
       (\<lambda>j. sum_list (map (elem t) (axis_group axes (shape t) j))
             / real (length (axis_group axes (shape t) j)))"

text \<open>\<^verbatim>\<open>T.addbroadcast\<close> changes the static broadcast pattern of a variable, not its value.\<close>

definition addbroadcast :: "tensor \<Rightarrow> int list \<Rightarrow> tensor" where
  "addbroadcast t axes = t"

subsection \<open>Python values the module handles\<close>

text \<open>The exceptions that leave the module's code, a \<^verbatim>\<open>ValueError\<close> with its message.\<close>

datatype error = ValueError string | IndexError | KeyError

text \<open>The \<^verbatim>\<open>ValueError\<close> of lines 52 and 53: the specification's Configuration Error.\<close>

definition configuration_error :: error where
  "configuration_error =
     ValueError ''BatchNormLayer needs specified input sizes for all dimensions/axes not normalized over.''"

text \<open>The \<^verbatim>\<open>ValueError\<close> of the constructor of Lasagne's \<^verbatim>\<open>Layer\<close>, and those of Theano's
  \<^verbatim>\<open>Rebroadcast\<close> and of its element-wise operations.\<close>

definition non_positive_dimension :: error where
  "non_positive_dimension = ValueError ''Cannot create Layer with a non-positive input_shape dimension.''"

definition rebroadcast_non_existent :: error where
  "rebroadcast_non_existent = ValueError ''Trying to rebroadcast non-existent dimension''"

definition rebroadcast_not_one :: error where
  "rebroadcast_not_one = ValueError ''Dimension in the input of Rebroadcast was supposed to be 1''"

definition dimension_mismatch :: error where
  "dimension_mismatch = ValueError ''Dimension mismatch''"

text \<open>\<^verbatim>\<open>xs[i] = v\<close> on a Python list: a negative index counts from the end, an index out
  of range raises \<^verbatim>\<open>IndexError\<close>.\<close>

definition list_assign :: "'a list \<Rightarrow> int \<Rightarrow> 'a \<Rightarrow> error + 'a list" where
  "list_assign xs i v =
     (let n = int (length xs); j = (if i < 0 then n + i else i)
      in if 0 \<le> j \<and> j < n then Inr (xs[nat j := v]) else Inl IndexError)"

text \<open>An attribute of a Python object: absent, or present with a value.\<close>

datatype 'a attr = Absent | Present 'a

text \<open>
  What the module reads and writes of a Lasagne layer it is stacked on: the output shape
  (a size is \<open>None\<close> when it is not known before run time), the \<^verbatim>\<open>nonlinearity\<close>
  attribute as \<^verbatim>\<open>getattr(layer, 'nonlinearity', None)\<close> returns it, the attribute \<^verbatim>\<open>b\<close>
  (which holds a shared variable, named here by a string, or \<open>None\<close>), and the dictionary
  \<^verbatim>\<open>params\<close> from shared variables to their tags.
\<close>

record lasagne_layer =
  l_output_shape :: "int option list"
  l_nonlinearity :: "(tensor \<Rightarrow> tensor) option"
  l_b :: "string option attr"
  l_params :: "string \<rightharpoonup> string set"

datatype incoming = InShape "int option list" | InLayer lasagne_layer

text \<open>The \<^verbatim>\<open>axes\<close> argument of the constructor: omitted, one integer, or a tuple.\<close>

datatype axes_arg = AxesNone | AxesInt int | AxesTuple "int list"

definition identity :: "tensor \<Rightarrow> tensor" where
  "identity x = x"

subsection \<open>The layer\<close>

record layer =
  input_shape :: "int option list"
  input_layer :: "lasagne_layer option"
  axes :: "int list"
  epsilon :: real
  alpha :: real
  nonlinearity :: "tensor \<Rightarrow> tensor"
  centered :: tensor
  mean :: tensor
  std :: tensor

text \<open>\<^verbatim>\<open>lasagne.init.Constant(c)\<close> at a given shape.\<close>

definition constant_param :: "real \<Rightarrow> nat list \<Rightarrow> tensor" where
  "constant_param c s = tabulate s (\<lambda>_. c)"

text \<open>The loop \<^verbatim>\<open>for axis in self.axes: shape[axis] = 1; broadcast[axis] = True\<close>.\<close>

fun mark_axes :: "int list \<Rightarrow> int option list \<times> bool list \<Rightarrow> error + int option list \<times> bool list" where
  "mark_axes [] sb = Inr sb"
| "mark_axes (axis # rest) (shp, broadcast) =
     (case list_assign shp axis (Some 1) of
        Inl e \<Rightarrow> Inl e
      | Inr shp' \<Rightarrow>
          (case list_assign broadcast axis True of
             Inl e \<Rightarrow> Inl e
           | Inr broadcast' \<Rightarrow> mark_axes rest (shp', broadcast')))"

text \<open>
  \<^verbatim>\<open>BatchNormSfhitPow2Layer.__init__\<close>.  Line 34 calls the constructor of Lasagne's
  \<^verbatim>\<open>Layer\<close>, which stores the input shape (the shape given, or the output shape of the
  layer given) and raises \<^verbatim>\<open>ValueError\<close> when a specified size of it is not positive.
  \<open>resolve_axes\<close> is the first \<^verbatim>\<open>if\<close> of the constructor: the default is every axis but
  the second.  The three parameters are allocated with the sizes left in \<^verbatim>\<open>shape\<close>, which
  are positive when the constructor gets there.
\<close>

definition has_non_positive_size :: "int option list \<Rightarrow> bool" where
  "has_non_positive_size s \<longleftrightarrow> list_ex (\<lambda>d. case d of None \<Rightarrow> False | Some n \<Rightarrow> n \<le> 0) s"

definition incoming_shape :: "incoming \<Rightarrow> int option list" where
  "incoming_shape incoming = (case incoming of InShape s \<Rightarrow> s | InLayer l \<Rightarrow> l_output_shape l)"

definition incoming_layer :: "incoming \<Rightarrow> lasagne_layer option" where
  "incoming_layer incoming = (case incoming of InShape s \<Rightarrow> None | InLayer l \<Rightarrow> Some l)"

definition resolve_axes :: "axes_arg \<Rightarrow> nat \<Rightarrow> int list" where
  "resolve_axes axes0 n =
     (case axes0 of
        AxesNone \<Rightarrow> 0 # map int [2..<n]
      | AxesInt a \<Rightarrow> [a]
      | AxesTuple as \<Rightarrow> as)"

definition BatchNormSfhitPow2Layer ::
  "incoming \<Rightarrow> axes_arg \<Rightarrow> real \<Rightarrow> real \<Rightarrow> (tensor \<Rightarrow> tensor) option \<Rightarrow> error + layer" where
  "BatchNormSfhitPow2Layer incoming axes0 epsilon0 alpha0 nonlinearity0 =
     (let input_shape0 = incoming_shape incoming
      in if has_non_positive_size input_shape0 then Inl non_positive_dimension
         else
           (let axes1 = resolve_axes axes0 (length input_shape0);
                nonlinearity1 = (case nonlinearity0 of None \<Rightarrow> identity | Some f \<Rightarrow> f)
            in case mark_axes axes1 (input_shape0, replicate (length input_shape0) False) of
                 Inl e \<Rightarrow> Inl e
               | Inr (shape1, broadcast) \<Rightarrow>
                   if list_ex (\<lambda>size. size = None) shape1 then Inl configuration_error
                   else Inr \<lparr>input_shape = input_shape0, input_layer = incoming_layer incoming,
                             axes = axes1, epsilon = epsilon0, alpha = alpha0,
                             nonlinearity = nonlinearity1,
                             centered = constant_param 0 (map (\<lambda>size. nat (the size)) shape1),
                             mean = constant_param 0 (map (\<lambda>size. nat (the size)) shape1),
                             std = constant_param 1 (map (\<lambda>size. nat (the size)) shape1)\<rparr>))"

text \<open>
  The local variables of the training branch of \<^verbatim>\<open>get_output_for\<close> that depend on the
  batch only, each named after the source's variable and the line that assigns it
  (\<^verbatim>\<open>std\<close> is assigned three times: the variance surrogate at line 87, its inverse
  square root at line 89, the power of two at line 99).
\<close>

record batch_locals =
  loc_mean :: tensor
  loc_centered :: tensor
  loc_centered_log2 :: tensor
  loc_centered_ap2 :: tensor
  loc_std_87 :: tensor
  loc_std_89 :: tensor
  loc_std_99 :: tensor

definition batch_statistics ::
  "(real \<Rightarrow> real) \<Rightarrow> (real \<Rightarrow> int) \<Rightarrow> tensor \<Rightarrow> int list \<Rightarrow> real \<Rightarrow> batch_locals" where
  "batch_statistics lg rnd input axes0 epsilon0 =
     (let mean1 = tmean input axes0;
          centered1 = tsub input mean1;
          centered_log2 = tlog2 lg (tabs centered1);
          centered_log2' = tswitch_s (teq_s centered1 0) 0 centered_log2;
          centered_ap2 = tpow_s 2 (tround rnd centered_log2');
          std1 = tmean (tmul (tabs centered1) centered_ap2) axes0;
          std2 = tinv (tsqrt (tadd_s std1 epsilon0));
          std3 = tpow_s 2 (tround rnd (tlog2 lg std2))
      in \<lparr>loc_mean = mean1, loc_centered = centered1, loc_centered_log2 = centered_log2',
          loc_centered_ap2 = centered_ap2, loc_std_87 = std1, loc_std_89 = std2, loc_std_99 = std3\<rparr>)"

text \<open>
  \<^verbatim>\<open>get_output_for\<close>.  The result is the returned tensor and the layer after the call; in
  the training branch the layer's \<open>mean\<close> and \<open>std\<close> receive the default updates attached
  to their clones, both computed from the values stored before the call.  The update of
  \<open>std\<close> is set at line 94, between the second and the third assignment to \<^verbatim>\<open>std\<close>.
\<close>

definition get_output_for ::
  "(real \<Rightarrow> real) \<Rightarrow> (real \<Rightarrow> int) \<Rightarrow> layer \<Rightarrow> tensor \<Rightarrow> bool \<Rightarrow> tensor \<times> layer" where
  "get_output_for lg rnd self input deterministic =
     (if deterministic then
        (let mean1 = mean self;
             std1 = std self;
             mean2 = addbroadcast mean1 (axes self);
             std2 = addbroadcast std1 (axes self);
             normalized = tmul (tsub input mean2) std2
         in (nonlinearity self normalized, self))
      else
        (let batch = batch_statistics lg rnd input (axes self) (epsilon self);
             running_mean = mean self;
             running_mean_update =
               tadd (tmul_s (1 - alpha self) running_mean) (tmul_s (alpha self) (loc_mean batch));
             running_std = std self;
             running_std_update =
               tadd (tmul_s (1 - alpha self) running_std) (tmul_s (alpha self) (loc_std_89 batch));
             mean2 = tadd (loc_mean batch) (tmul_s 0 running_mean);
             std4 = tadd (loc_std_99 batch) (tmul_s 0 running_std);
             mean3 = addbroadcast mean2 (axes self);
             std5 = addbroadcast std4 (axes self);
             normalized = tmul (tsub input mean3) std5
         in (nonlinearity self normalized,
             self\<lparr>mean := running_mean_update, std := running_std_update\<rparr>)))"

subsection \<open>Values that are not finite\<close>

text \<open>
  The tensors above hold real numbers.  A floating-point operation can also return an
  infinity or NaN, and \<^verbatim>\<open>T.log2\<close> does at 0.  The lines 83 to 87 are given here a second
  time, for one element, over values that are finite or not, with the operations as
  NumPy computes them; a finite value is an exact real, so rounding and overflow are left
  out, and the sign of a zero too.
\<close>

datatype floatX = Finite real | PosInf | NegInf | NaN

fun abs_x :: "floatX \<Rightarrow> floatX" where
  "abs_x (Finite r) = Finite \<bar>r\<bar>"
| "abs_x PosInf = PosInf"
| "abs_x NegInf = PosInf"
| "abs_x NaN = NaN"

fun log2_x :: "(real \<Rightarrow> real) \<Rightarrow> floatX \<Rightarrow> floatX" where
  "log2_x lg (Finite r) = (if r < 0 then NaN else if r = 0 then NegInf else Finite (lg r))"
| "log2_x lg PosInf = PosInf"
| "log2_x lg NegInf = NaN"
| "log2_x lg NaN = NaN"

text \<open>\<^verbatim>\<open>T.eq\<close>: NaN equals nothing.\<close>

definition eq_x :: "floatX \<Rightarrow> floatX \<Rightarrow> bool" where
  "eq_x a b \<longleftrightarrow> a = b \<and> a \<noteq> NaN"

definition switch_x :: "bool \<Rightarrow> floatX \<Rightarrow> floatX \<Rightarrow> floatX" where
  "switch_x cond a b = (if cond then a else b)"

fun round_x :: "(real \<Rightarrow> int) \<Rightarrow> floatX \<Rightarrow> floatX" where
  "round_x rnd (Finite r) = Finite (real_of_int (rnd r))"
| "round_x rnd v = v"

text \<open>\<^verbatim>\<open>T.pow(2., v)\<close>.\<close>

fun pow2_x :: "floatX \<Rightarrow> floatX" where
  "pow2_x (Finite r) = Finite (2 powr r)"
| "pow2_x PosInf = PosInf"
| "pow2_x NegInf = Finite 0"
| "pow2_x NaN = NaN"

fun mul_x :: "floatX \<Rightarrow> floatX \<Rightarrow> floatX" where
  "mul_x NaN b = NaN"
| "mul_x a NaN = NaN"
| "mul_x (Finite a) (Finite b) = Finite (a * b)"
| "mul_x (Finite a) PosInf = (if a = 0 then NaN else if 0 < a then PosInf else NegInf)"
| "mul_x (Finite a) NegInf = (if a = 0 then NaN else if 0 < a then NegInf else PosInf)"
| "mul_x PosInf (Finite b) = (if b = 0 then NaN else if 0 < b then PosInf else NegInf)"
| "mul_x NegInf (Finite b) = (if b = 0 then NaN else if 0 < b then NegInf else PosInf)"
| "mul_x PosInf PosInf = PosInf"
| "mul_x PosInf NegInf = NegInf"
| "mul_x NegInf PosInf = NegInf"
| "mul_x NegInf NegInf = PosInf"

text \<open>Lines 83 and 84, line 86 and the product of line 87 at an element whose centred
  value is \<open>c\<close>.\<close>

definition centered_log2_at :: "(real \<Rightarrow> real) \<Rightarrow> real \<Rightarrow> floatX" where
  "centered_log2_at lg c =
     (let centered_log2 = log2_x lg (abs_x (Finite c))
      in switch_x (eq_x (Finite c) (Finite 0)) (Finite 0) centered_log2)"

definition centered_ap2_at :: "(real \<Rightarrow> real) \<Rightarrow> (real \<Rightarrow> int) \<Rightarrow> real \<Rightarrow> floatX" where
  "centered_ap2_at lg rnd c = pow2_x (round_x rnd (centered_log2_at lg c))"

definition contribution_at :: "(real \<Rightarrow> real) \<Rightarrow> (real \<Rightarrow> int) \<Rightarrow> real \<Rightarrow> floatX" where
  "contribution_at lg rnd c = mul_x (abs_x (Finite c)) (centered_ap2_at lg rnd c)"

subsection \<open>Theano's checks of dimensions\<close>

text \<open>
  A Theano variable has a static pattern that says which of its dimensions broadcast, and
  a call of the compiled expression raises when two operands of an element-wise operation
  disagree on a dimension that neither broadcasts.  These checks depend on the shapes and
  the patterns only.  A signature is the shape of a variable at run time and its pattern;
  the functions below follow the signatures through the operations of \<^verbatim>\<open>get_output_for\<close>,
  \<open>get_output_for\<close> above gives the values when no check fails, and
  \<open>get_output_for_checked\<close> is the call with both.  Operands have the same rank here,
  as they do when the input has the rank of the input shape; Theano pads an operand of
  lower rank, which is not followed, and such operands count as a mismatch.
\<close>

type_synonym signature = "nat list \<times> bool list"

definition raise_or :: "error + 'a \<Rightarrow> ('a \<Rightarrow> error + 'b) \<Rightarrow> error + 'b" where
  "raise_or m f = (case m of Inl e \<Rightarrow> Inl e | Inr v \<Rightarrow> f v)"

text \<open>A shared variable, as \<^verbatim>\<open>add_param\<close> creates it, broadcasts no dimension.\<close>

definition shared_signature :: "tensor \<Rightarrow> signature" where
  "shared_signature t = (shape t, replicate (length (shape t)) False)"

text \<open>An element-wise operation: on every dimension the sizes are equal, or one operand
  has size 1 there and broadcasts.  The result broadcasts where both operands do.\<close>

definition dims_agree :: "signature \<Rightarrow> signature \<Rightarrow> bool" where
  "dims_agree a b \<longleftrightarrow>
     length (fst a) = length (fst b) \<and>
     list_all (\<lambda>k. (snd a ! k \<and> fst a ! k = 1) \<or> (snd b ! k \<and> fst b ! k = 1)
                   \<or> fst a ! k = fst b ! k)
              [0..<length (fst a)]"

definition elemwise_signature :: "signature \<Rightarrow> signature \<Rightarrow> error + signature" where
  "elemwise_signature a b =
     (if dims_agree a b
      then Inr (bshape (fst a) (fst b), map (\<lambda>k. snd a ! k \<and> snd b ! k) [0..<length (fst a)])
      else Inl dimension_mismatch)"

text \<open>\<^verbatim>\<open>t.mean(axes, keepdims=True)\<close>: the reduction refuses an axis that is no dimension of
  \<open>t\<close>; the reduced dimensions broadcast in the result.\<close>

definition mean_signature :: "signature \<Rightarrow> int list \<Rightarrow> error + signature" where
  "mean_signature a axes0 =
     (if axes_in_range axes0 (length (fst a))
      then Inr (keep_shape axes0 (fst a),
                map (\<lambda>k. is_reduced axes0 (length (fst a)) k \<or> snd a ! k) [0..<length (fst a)])
      else Inl (ValueError ''Not enough dimensions to reduce on axis''))"

text \<open>
  \<^verbatim>\<open>T.addbroadcast(t, *axes)\<close> builds a \<^verbatim>\<open>Rebroadcast\<close>.  It refuses an axis that is not
  less than the rank.  In the pattern it sets the dimensions whose index is one of the
  axes: a negative axis is the index of no dimension, so it marks nothing.  At run time it
  reads the size at every axis, in increasing order, as Python indexes a tuple (a negative
  axis from the end), and raises unless the size is 1.
\<close>

fun rebroadcast_perform :: "nat list \<Rightarrow> int list \<Rightarrow> error option" where
  "rebroadcast_perform s [] = None"
| "rebroadcast_perform s (a # as) =
     (let n = int (length s); j = (if a < 0 then n + a else a)
      in if \<not> (0 \<le> j \<and> j < n) then Some IndexError
         else if s ! nat j \<noteq> 1 then Some rebroadcast_not_one
         else rebroadcast_perform s as)"

definition addbroadcast_signature :: "signature \<Rightarrow> int list \<Rightarrow> error + signature" where
  "addbroadcast_signature a axes0 =
     (if list_ex (\<lambda>axis. int (length (fst a)) \<le> axis) axes0 then Inl rebroadcast_non_existent
      else case rebroadcast_perform (fst a) (sort axes0) of
             Some e \<Rightarrow> Inl e
           | None \<Rightarrow>
               Inr (fst a, map (\<lambda>k. int k \<in> set axes0 \<or> snd a ! k) [0..<length (fst a)]))"

text \<open>
  The signatures along \<^verbatim>\<open>get_output_for\<close>, line by line; operations between a tensor and
  a scalar, and of one tensor, keep the signature.  The result is the signature of
  \<^verbatim>\<open>normalized\<close>.
\<close>

definition check_get_output_for :: "layer \<Rightarrow> signature \<Rightarrow> bool \<Rightarrow> error + signature" where
  "check_get_output_for self input deterministic =
     (if deterministic then
        raise_or (addbroadcast_signature (shared_signature (mean self)) (axes self)) (\<lambda>mean2.
        raise_or (addbroadcast_signature (shared_signature (std self)) (axes self)) (\<lambda>std2.
        raise_or (elemwise_signature input mean2) (\<lambda>difference.
        elemwise_signature difference std2)))
      else
        raise_or (mean_signature input (axes self)) (\<lambda>mean1.
        raise_or (elemwise_signature (shared_signature (mean self)) mean1) (\<lambda>running_mean_update.
        raise_or (elemwise_signature input mean1) (\<lambda>centered1.
        raise_or (elemwise_signature centered1 centered1) (\<lambda>centered_log2.
        raise_or (elemwise_signature centered1 centered_log2) (\<lambda>product.
        raise_or (mean_signature product (axes self)) (\<lambda>std1.
        raise_or (elemwise_signature (shared_signature (std self)) std1) (\<lambda>running_std_update.
        raise_or (elemwise_signature mean1 (shared_signature (mean self))) (\<lambda>mean2.
        raise_or (elemwise_signature std1 (shared_signature (std self))) (\<lambda>std4.
        raise_or (addbroadcast_signature mean2 (axes self)) (\<lambda>mean3.
        raise_or (addbroadcast_signature std4 (axes self)) (\<lambda>std5.
        raise_or (elemwise_signature input mean3) (\<lambda>difference.
        elemwise_signature difference std5)))))))))))))"

text \<open>A call of \<^verbatim>\<open>get_output_for\<close> on an input with the broadcast pattern \<open>pattern\<close>: the
  error of the first check that fails, with the layer left as it was, or the tensor
  returned and the layer after the call.\<close>

definition get_output_for_checked ::
  "(real \<Rightarrow> real) \<Rightarrow> (real \<Rightarrow> int) \<Rightarrow> layer \<Rightarrow> tensor \<Rightarrow> bool list \<Rightarrow> bool \<Rightarrow> error + tensor \<times> layer"
  where
  "get_output_for_checked lg rnd self input pattern deterministic =
     (case check_get_output_for self (shape input, pattern) deterministic of
        Inl e \<Rightarrow> Inl e
      | Inr normalized \<Rightarrow> Inr (get_output_for lg rnd self input deterministic))"

subsection \<open>The wiring helper\<close>

text \<open>\<^verbatim>\<open>del d[k]\<close> on a dictionary whose keys are shared variables: \<^verbatim>\<open>KeyError\<close> when \<open>k\<close>
  (possibly \<open>None\<close>) is not a key.\<close>

definition dict_del :: "(string \<rightharpoonup> 'v) \<Rightarrow> string option \<Rightarrow> error + (string \<rightharpoonup> 'v)" where
  "dict_del d k =
     (case k of
        None \<Rightarrow> Inl KeyError
      | Some key \<Rightarrow> if key \<in> dom d then Inr (d(key := None)) else Inl KeyError)"

text \<open>
  \<^verbatim>\<open>batch_norm_pow_2\<close>.  The layer given is modified in place, before the constructor is
  called: the result is the layer as the call leaves it, whether the call returns or
  raises, and what the call returns or raises.  The normalisation layer is constructed on
  the modified layer with the constructor's default \<open>axes\<close>, \<open>epsilon\<close> and \<open>alpha\<close>.
\<close>

definition batch_norm_pow_2 :: "lasagne_layer \<Rightarrow> lasagne_layer \<times> (error + layer)" where
  "batch_norm_pow_2 layer0 =
     (let nonlinearity0 = l_nonlinearity layer0;
          layer1 = (if nonlinearity0 \<noteq> None then layer0\<lparr>l_nonlinearity := Some identity\<rparr>
                    else layer0)
      in case l_b layer1 of
           Absent \<Rightarrow>
             (layer1,
              BatchNormSfhitPow2Layer (InLayer layer1) AxesNone (1 / 100000) (1 / 8) nonlinearity0)
         | Present b \<Rightarrow>
             (case dict_del (l_params layer1) b of
                Inl e \<Rightarrow> (layer1, Inl e)
              | Inr ps \<Rightarrow>
                  (let layer2 = layer1\<lparr>l_params := ps, l_b := Present None\<rparr>
                   in (layer2,
                       BatchNormSfhitPow2Layer (InLayer layer2) AxesNone (1 / 100000) (1 / 8)
                         nonlinearity0))))"

subsection \<open>The specification's formulas\<close>

text \<open>
  The quantities of the specification (its section 4.1), element by element, for an input
  \<open>x\<close>, reduction axes \<open>A\<close> and a position \<open>j\<close> of the reduced tensor: the arithmetic mean
  over \<open>A\<close>; the mean over \<open>A\<close> of \<open>|x - m| * 2^round(log2 |x - m|)\<close>; its inverse square
  root after adding \<open>epsilon\<close>; and the power of two nearest to that in the exponent.
\<close>

definition spec_mean :: "int list \<Rightarrow> tensor \<Rightarrow> nat list \<Rightarrow> real" where
  "spec_mean A x j =
     sum_list (map (elem x) (axis_group A (shape x) j)) / real (length (axis_group A (shape x) j))"

definition spec_variance_surrogate ::
  "(real \<Rightarrow> real) \<Rightarrow> (real \<Rightarrow> int) \<Rightarrow> int list \<Rightarrow> tensor \<Rightarrow> nat list \<Rightarrow> real" where
  "spec_variance_surrogate lg rnd A x j =
     sum_list (map (\<lambda>i. \<bar>elem x i - spec_mean A x j\<bar>
                         * 2 powr real_of_int (rnd (lg \<bar>elem x i - spec_mean A x j\<bar>)))
                   (axis_group A (shape x) j))
     / real (length (axis_group A (shape x) j))"

definition spec_std_raw ::
  "(real \<Rightarrow> real) \<Rightarrow> (real \<Rightarrow> int) \<Rightarrow> real \<Rightarrow> int list \<Rightarrow> tensor \<Rightarrow> nat list \<Rightarrow> real" where
  "spec_std_raw lg rnd eps A x j = 1 / sqrt (spec_variance_surrogate lg rnd A x j + eps)"

definition spec_std ::
  "(real \<Rightarrow> real) \<Rightarrow> (real \<Rightarrow> int) \<Rightarrow> real \<Rightarrow> int list \<Rightarrow> tensor \<Rightarrow> nat list \<Rightarrow> real" where
  "spec_std lg rnd eps A x j = 2 powr real_of_int (rnd (lg (spec_std_raw lg rnd eps A x j)))"

text \<open>\<open>(x - m) * s\<close>, with \<open>m\<close> and \<open>s\<close> read at the position that \<open>i\<close> is reduced into.\<close>

definition spec_normalized ::
  "(real \<Rightarrow> real) \<Rightarrow> (real \<Rightarrow> int) \<Rightarrow> real \<Rightarrow> int list \<Rightarrow> tensor \<Rightarrow> tensor" where
  "spec_normalized lg rnd eps A x =
     tabulate (shape x)
       (\<lambda>i. (elem x i - spec_mean A x (zero_axes A i)) * spec_std lg rnd eps A x (zero_axes A i))"

text \<open>The exponential moving average of a stored tensor \<open>r\<close> and batch values \<open>b\<close>.\<close>

definition spec_ema :: "real \<Rightarrow> tensor \<Rightarrow> (nat list \<Rightarrow> real) \<Rightarrow> tensor" where
  "spec_ema a r b = tabulate (shape r) (\<lambda>j. (1 - a) * elem r j + a * b j)"

text \<open>The input contract of the forward operation: the input has the rank of the
  configured input shape and its size on every axis that is not reduced.\<close>

definition matches_input_shape :: "layer \<Rightarrow> tensor \<Rightarrow> bool" where
  "matches_input_shape self x \<longleftrightarrow>
     length (shape x) = length (input_shape self) \<and>
     list_all (\<lambda>k. is_reduced (axes self) (length (input_shape self)) k
                   \<or> input_shape self ! k = Some (int (shape x ! k)))
              [0..<length (input_shape self)]"

text \<open>The shape of the three stored tensors: the input shape with size 1 on the reduced
  axes.\<close>

definition param_shape :: "int list \<Rightarrow> int option list \<Rightarrow> nat list" where
  "param_shape axes0 s =
     map (\<lambda>k. if is_reduced axes0 (length s) k then 1 else nat (the (s ! k))) [0..<length s]"

text \<open>Some axis that is not reduced has an unspecified size.\<close>

definition unspecified_kept_axis :: "int list \<Rightarrow> int option list \<Rightarrow> bool" where
  "unspecified_kept_axis axes0 s \<longleftrightarrow>
     list_ex (\<lambda>k. \<not> is_reduced axes0 (length s) k \<and> s ! k = None) [0..<length s]"

text \<open>The layer that the constructor returns when it returns.\<close>

definition new_layer ::
  "incoming \<Rightarrow> axes_arg \<Rightarrow> real \<Rightarrow> real \<Rightarrow> (tensor \<Rightarrow> tensor) option \<Rightarrow> layer" where
  "new_layer inc ax eps al nl =
     \<lparr>input_shape = incoming_shape inc, input_layer = incoming_layer inc,
      axes = resolve_axes ax (length (incoming_shape inc)),
      epsilon = eps, alpha = al,
      nonlinearity = (case nl of None \<Rightarrow> identity | Some f \<Rightarrow> f),
      centered = constant_param 0
        (param_shape (resolve_axes ax (length (incoming_shape inc))) (incoming_shape inc)),
      mean = constant_param 0
        (param_shape (resolve_axes ax (length (incoming_shape inc))) (incoming_shape inc)),
      std = constant_param 1
        (param_shape (resolve_axes ax (length (incoming_shape inc))) (incoming_shape inc))\<rparr>"

text \<open>The one property of \<^verbatim>\<open>T.round\<close> that is used: at \<open>v\<close> it returns an integer no
  further than one half from \<open>v\<close>.\<close>

definition rounds_to_nearest :: "(real \<Rightarrow> int) \<Rightarrow> real \<Rightarrow> bool" where
  "rounds_to_nearest rnd v \<longleftrightarrow> \<bar>real_of_int (rnd v) - v\<bar> \<le> 1 / 2"

subsection \<open>Rounding\<close>

text \<open>The two modes of \<^verbatim>\<open>T.round\<close>: a tie goes to the even integer, or away from zero.\<close>

definition round_half_even :: "real \<Rightarrow> int" where
  "round_half_even v =
     (if v - real_of_int \<lfloor>v\<rfloor> = 1 / 2 then (if even \<lfloor>v\<rfloor> then \<lfloor>v\<rfloor> else \<lfloor>v\<rfloor> + 1)
      else round v)"

definition round_half_away_from_zero :: "real \<Rightarrow> int" where
  "round_half_away_from_zero v = (if 0 \<le> v then \<lfloor>v + 1 / 2\<rfloor> else \<lceil>v - 1 / 2\<rceil>)"

text \<open>
  The double nearest to a real number: 53 significant bits.  Ties, subnormal numbers and
  overflow are left out.  \<open>float64_log2\<close> is \<^verbatim>\<open>T.log2\<close> for \<^verbatim>\<open>floatX = float64\<close>, taken as
  correctly rounded.
\<close>

definition float64 :: "real \<Rightarrow> real" where
  "float64 v =
     (if v = 0 then 0
      else (let e = \<lfloor>log 2 \<bar>v\<bar>\<rfloor>
            in real_of_int (round (v / 2 powr real_of_int (e - 52)))
               * 2 powr real_of_int (e - 52)))"

definition float64_log2 :: "real \<Rightarrow> real" where
  "float64_log2 v = float64 (log 2 v)"

subsection \<open>A worked example\<close>

text \<open>The batch of the specification's end-to-end example, of shape \<open>(4, 3)\<close>, and the
  layer constructed for the input shape \<open>(None, 3)\<close> with the default arguments.\<close>

definition example_input :: tensor where
  "example_input = \<lparr>shape = [4, 3], elems = [1, 2, 3, 1, 2, 3, 1, 2, 3, 5, 2, 3]\<rparr>"

definition example_layer :: layer where
  "example_layer =
     \<lparr>input_shape = [None, Some 3], input_layer = None, axes = [0],
      epsilon = 1 / 100000, alpha = 1 / 8, nonlinearity = identity,
      centered = \<lparr>shape = [1, 3], elems = [0, 0, 0]\<rparr>,
      mean = \<lparr>shape = [1, 3], elems = [0, 0, 0]\<rparr>,
      std = \<lparr>shape = [1, 3], elems = [1, 1, 1]\<rparr>\<rparr>"

text \<open>Two layers to stack the normalisation on, each with the nonlinearity
  \<^verbatim>\<open>rectify\<close> and a bias among its parameters: one with three output units, one whose
  number of output units is not known before run time.\<close>

definition rectify :: "tensor \<Rightarrow> tensor" where
  "rectify t = tmap (max 0) t"

definition example_dense_layer :: lasagne_layer where
  "example_dense_layer =
     \<lparr>l_output_shape = [None, Some 3], l_nonlinearity = Some rectify,
      l_b = Present (Some ''b''),
      l_params = [''W'' \<mapsto> {''trainable'', ''regularizable''}, ''b'' \<mapsto> {''trainable''}]\<rparr>"

definition example_unsized_layer :: lasagne_layer where
  "example_unsized_layer =
     \<lparr>l_output_shape = [None, None], l_nonlinearity = Some rectify,
      l_b = Present (Some ''b''),
      l_params = [''W'' \<mapsto> {''trainable'', ''regularizable''}, ''b'' \<mapsto> {''trainable''}]\<rparr>"

text \<open>
  The two doubles next to \<open>2 powr (5 / 2)\<close>, one above it and one below (they print as
  \<^verbatim>\<open>5.656854249492381\<close> and \<^verbatim>\<open>5.65685424949238\<close>), and a batch of shape \<open>(4, 1)\<close> with
  mean 0 that holds them.
\<close>

definition above_tie :: real where
  "above_tie = 6369051672525773 / 1125899906842624"

definition below_tie :: real where
  "below_tie = 1592262918131443 / 281474976710656"

definition example_near_tie :: tensor where
  "example_near_tie =
     \<lparr>shape = [4, 1],
      elems = [above_tie, - above_tie, below_tie, - below_tie]\<rparr>"

section \<open>Properties of the tensor operations\<close>

lemma distinct_indices: "distinct (indices s)"
  unfolding indices_def by (rule distinct_product_lists) auto

lemma in_indices_iff:
  "i \<in> set (indices s) \<longleftrightarrow> length i = length s \<and> (\<forall>k<length s. i ! k < s ! k)"
  unfolding indices_def product_lists_set
  by (auto simp: list_all2_conv_all_nth)

lemma elem_tabulate: "elem (tabulate s g) i = (if i \<in> set (indices s) then g i else 0)"
  by (simp add: elem_def tabulate_def map_of_zip_map)

lemma shape_tabulate [simp]: "shape (tabulate s g) = s"
  by (simp add: tabulate_def)

lemma wf_tabulate [simp]: "wf_tensor (tabulate s g)"
  by (simp add: tabulate_def wf_tensor_def)

lemma tabulate_elem:
  assumes "wf_tensor t"
  shows "tabulate (shape t) (elem t) = t"
proof -
  let ?xs = "indices (shape t)"
  have len: "length ?xs = length (elems t)"
    using assms by (simp add: wf_tensor_def)
  have "map (elem t) ?xs = elems t"
  proof (rule nth_equalityI)
    show "length (map (elem t) ?xs) = length (elems t)"
      using len by simp
  next
    fix k
    assume "k < length (map (elem t) ?xs)"
    then have k: "k < length (elems t)"
      using len by simp
    have "map_of (zip ?xs (elems t)) (?xs ! k) = Some (elems t ! k)"
      by (rule map_of_zip_nth [OF len distinct_indices k])
    then show "map (elem t) ?xs ! k = elems t ! k"
      using k len by (simp add: elem_def)
  qed
  then show ?thesis
    by (simp add: tabulate_def)
qed

lemma tabulate_cong:
  "(\<And>i. i \<in> set (indices s) \<Longrightarrow> g i = h i) \<Longrightarrow> tabulate s g = tabulate s h"
  by (simp add: tabulate_def)

lemma tmap_tabulate: "tmap f (tabulate s g) = tabulate s (\<lambda>i. f (g i))"
  by (simp add: tmap_def tabulate_def comp_def)

lemma shape_tmap [simp]: "shape (tmap f t) = shape t"
  by (simp add: tmap_def)

lemma wf_tmap [simp]: "wf_tensor (tmap f t) = wf_tensor t"
  by (simp add: tmap_def wf_tensor_def)

lemma elem_tmap:
  assumes "wf_tensor t" and "i \<in> set (indices (shape t))"
  shows "elem (tmap f t) i = f (elem t i)"
proof -
  have "tmap f t = tmap f (tabulate (shape t) (elem t))"
    using tabulate_elem [OF assms(1)] by simp
  then show ?thesis
    using assms(2) by (simp add: tmap_tabulate elem_tabulate)
qed

lemma shape_scalar_ops [simp]:
  "shape (tabs t) = shape t" "shape (tlog2 lg t) = shape t" "shape (tsqrt t) = shape t"
  "shape (tinv t) = shape t" "shape (tround rnd t) = shape t" "shape (tpow_s c t) = shape t"
  "shape (tmul_s c t) = shape t" "shape (tadd_s t c) = shape t" "shape (teq_s t c) = shape t"
  by (simp_all add: tabs_def tlog2_def tsqrt_def tinv_def tround_def tpow_s_def tmul_s_def
      tadd_s_def teq_s_def)

lemma wf_scalar_ops [simp]:
  "wf_tensor (tabs t) = wf_tensor t" "wf_tensor (tlog2 lg t) = wf_tensor t"
  "wf_tensor (tsqrt t) = wf_tensor t" "wf_tensor (tinv t) = wf_tensor t"
  "wf_tensor (tround rnd t) = wf_tensor t" "wf_tensor (tpow_s c t) = wf_tensor t"
  "wf_tensor (tmul_s c t) = wf_tensor t" "wf_tensor (tadd_s t c) = wf_tensor t"
  "wf_tensor (teq_s t c) = wf_tensor t"
  by (simp_all add: tabs_def tlog2_def tsqrt_def tinv_def tround_def tpow_s_def tmul_s_def
      tadd_s_def teq_s_def)

lemma bshape_same [simp]: "bshape s s = s"
  unfolding bshape_def by (induction s) auto

lemma bproj_same: "i \<in> set (indices s) \<Longrightarrow> bproj s i = i"
  unfolding bproj_def in_indices_iff
  by (auto intro!: nth_equalityI)

lemma shape_tbin [simp]: "shape (tbin f a b) = bshape (shape a) (shape b)"
  by (simp add: tbin_def)

lemma wf_tbin [simp]: "wf_tensor (tbin f a b)"
  by (simp add: tbin_def)

lemma shape_binary_ops [simp]:
  "shape (tadd a b) = bshape (shape a) (shape b)" "shape (tsub a b) = bshape (shape a) (shape b)"
  "shape (tmul a b) = bshape (shape a) (shape b)"
  "shape (tswitch_s a c b) = bshape (shape a) (shape b)"
  by (simp_all add: tadd_def tsub_def tmul_def tswitch_s_def)

lemma wf_binary_ops [simp]:
  "wf_tensor (tadd a b)" "wf_tensor (tsub a b)" "wf_tensor (tmul a b)"
  "wf_tensor (tswitch_s a c b)"
  by (simp_all add: tadd_def tsub_def tmul_def tswitch_s_def)

lemma tbin_same_shape:
  assumes "shape b = shape a"
  shows "tbin f a b = tabulate (shape a) (\<lambda>i. f (elem a i) (elem b i))"
  unfolding tbin_def assms bshape_same
  by (rule tabulate_cong) (simp add: bproj_same)

lemma tbin_tabulate_same:
  "tbin f (tabulate s g) (tabulate s h) = tabulate s (\<lambda>i. f (g i) (h i))"
proof -
  have "tbin f (tabulate s g) (tabulate s h)
        = tabulate s (\<lambda>i. f (elem (tabulate s g) i) (elem (tabulate s h) i))"
    using tbin_same_shape [of "tabulate s h" "tabulate s g" f] by simp
  also have "\<dots> = tabulate s (\<lambda>i. f (g i) (h i))"
    by (rule tabulate_cong) (simp add: elem_tabulate)
  finally show ?thesis .
qed

text \<open>A tensor times the scalar 0 reads as 0 everywhere, whatever its shape.\<close>

lemma elem_tmul_s_zero: "elem (tmul_s 0 r) j = 0"
proof (cases "map_of (zip (indices (shape r)) (map (\<lambda>v. 0 * v) (elems r))) j")
  case None
  then show ?thesis
    by (simp add: elem_def tmul_s_def tmap_def)
next
  case (Some v)
  then have "(j, v) \<in> set (zip (indices (shape r)) (map (\<lambda>v. 0 * v) (elems r)))"
    by (rule map_of_SomeD)
  then have "v \<in> set (map (\<lambda>v. 0 * v) (elems r))"
    by (rule set_zip_rightD)
  then have "v = 0"
    by auto
  with Some show ?thesis
    by (simp add: elem_def tmul_s_def tmap_def)
qed

lemma tadd_zero_running:
  assumes "wf_tensor m" and "shape r = shape m"
  shows "tadd m (tmul_s 0 r) = m"
proof -
  have "tadd m (tmul_s 0 r) = tabulate (shape m) (\<lambda>i. elem m i + elem (tmul_s 0 r) i)"
    unfolding tadd_def by (rule tbin_same_shape) (simp add: assms(2))
  also have "\<dots> = tabulate (shape m) (elem m)"
    by (simp add: elem_tmul_s_zero)
  also have "\<dots> = m"
    by (rule tabulate_elem [OF assms(1)])
  finally show ?thesis .
qed

subsection \<open>Reduction with kept dimensions, and broadcasting against it\<close>

lemma length_keep_shape [simp]: "length (keep_shape A s) = length s"
  by (simp add: keep_shape_def)

lemma bshape_keep_shape [simp]: "bshape s (keep_shape A s) = s"
  unfolding bshape_def keep_shape_def
  by (rule nth_equalityI) auto

lemma bproj_keep_shape:
  "i \<in> set (indices s) \<Longrightarrow> bproj (keep_shape A s) i = zero_axes A i"
  unfolding bproj_def keep_shape_def zero_axes_def in_indices_iff
  by (auto intro!: nth_equalityI)

lemma zero_axes_in_indices:
  "i \<in> set (indices s) \<Longrightarrow> zero_axes A i \<in> set (indices (keep_shape A s))"
  unfolding keep_shape_def zero_axes_def in_indices_iff
  by auto

lemma in_axis_group_iff:
  "i \<in> set (axis_group A s j) \<longleftrightarrow> i \<in> set (indices s) \<and> zero_axes A i = j"
  by (auto simp: axis_group_def)

lemma tbin_keep:
  assumes "shape q = keep_shape A (shape c)"
  shows "tbin f c q = tabulate (shape c) (\<lambda>i. f (elem c i) (elem q (zero_axes A i)))"
  unfolding tbin_def assms bshape_keep_shape
  by (rule tabulate_cong) (simp add: bproj_same bproj_keep_shape)

lemma shape_tmean [simp]: "shape (tmean t A) = keep_shape A (shape t)"
  by (simp add: tmean_def)

lemma wf_tmean [simp]: "wf_tensor (tmean t A)"
  by (simp add: tmean_def)

lemma elem_tmean:
  "j \<in> set (indices (keep_shape A (shape t))) \<Longrightarrow> elem (tmean t A) j = spec_mean A t j"
  by (simp add: tmean_def elem_tabulate spec_mean_def)

section \<open>The batch statistics, element by element\<close>

lemma batch_locals_simps:
  "loc_mean (batch_statistics lg rnd x A eps) = tmean x A"
  "loc_centered (batch_statistics lg rnd x A eps) = tsub x (tmean x A)"
  "loc_centered_log2 (batch_statistics lg rnd x A eps)
     = tswitch_s (teq_s (tsub x (tmean x A)) 0) 0 (tlog2 lg (tabs (tsub x (tmean x A))))"
  "loc_centered_ap2 (batch_statistics lg rnd x A eps)
     = tpow_s 2 (tround rnd (loc_centered_log2 (batch_statistics lg rnd x A eps)))"
  "loc_std_87 (batch_statistics lg rnd x A eps)
     = tmean (tmul (tabs (loc_centered (batch_statistics lg rnd x A eps)))
                   (loc_centered_ap2 (batch_statistics lg rnd x A eps))) A"
  "loc_std_89 (batch_statistics lg rnd x A eps)
     = tinv (tsqrt (tadd_s (loc_std_87 (batch_statistics lg rnd x A eps)) eps))"
  "loc_std_99 (batch_statistics lg rnd x A eps)
     = tpow_s 2 (tround rnd (tlog2 lg (loc_std_89 (batch_statistics lg rnd x A eps))))"
  by (simp_all add: batch_statistics_def Let_def)

lemma batch_locals_shape [simp]:
  "shape (loc_mean (batch_statistics lg rnd x A eps)) = keep_shape A (shape x)"
  "shape (loc_centered (batch_statistics lg rnd x A eps)) = shape x"
  "shape (loc_centered_log2 (batch_statistics lg rnd x A eps)) = shape x"
  "shape (loc_centered_ap2 (batch_statistics lg rnd x A eps)) = shape x"
  "shape (loc_std_87 (batch_statistics lg rnd x A eps)) = keep_shape A (shape x)"
  "shape (loc_std_89 (batch_statistics lg rnd x A eps)) = keep_shape A (shape x)"
  "shape (loc_std_99 (batch_statistics lg rnd x A eps)) = keep_shape A (shape x)"
  by (simp_all add: batch_statistics_def Let_def)

lemma batch_locals_wf [simp]:
  "wf_tensor (loc_mean (batch_statistics lg rnd x A eps))"
  "wf_tensor (loc_centered (batch_statistics lg rnd x A eps))"
  "wf_tensor (loc_centered_log2 (batch_statistics lg rnd x A eps))"
  "wf_tensor (loc_centered_ap2 (batch_statistics lg rnd x A eps))"
  "wf_tensor (loc_std_87 (batch_statistics lg rnd x A eps))"
  "wf_tensor (loc_std_89 (batch_statistics lg rnd x A eps))"
  "wf_tensor (loc_std_99 (batch_statistics lg rnd x A eps))"
  by (simp_all add: batch_statistics_def Let_def)

lemma elem_loc_mean:
  assumes "j \<in> set (indices (keep_shape A (shape x)))"
  shows "elem (loc_mean (batch_statistics lg rnd x A eps)) j = spec_mean A x j"
  using assms by (simp add: batch_locals_simps elem_tmean)

lemma elem_loc_centered:
  assumes "i \<in> set (indices (shape x))"
  shows "elem (loc_centered (batch_statistics lg rnd x A eps)) i
         = elem x i - spec_mean A x (zero_axes A i)"
  using assms
  by (simp add: batch_locals_simps tsub_def tbin_keep elem_tabulate elem_tmean
      zero_axes_in_indices)

text \<open>Lines 83 and 84: the logarithm, replaced by 0 where the centred value is 0.\<close>

lemma elem_loc_centered_log2:
  assumes "i \<in> set (indices (shape x))"
  shows "elem (loc_centered_log2 (batch_statistics lg rnd x A eps)) i
         = (if elem (loc_centered (batch_statistics lg rnd x A eps)) i = 0 then 0
            else lg \<bar>elem (loc_centered (batch_statistics lg rnd x A eps)) i\<bar>)"
proof -
  let ?c = "tsub x (tmean x A)"
  have wf: "wf_tensor ?c" and sh: "shape ?c = shape x"
    by simp_all
  have "tswitch_s (teq_s ?c 0) 0 (tlog2 lg (tabs ?c))
        = tabulate (shape x)
            (\<lambda>i. if elem (teq_s ?c 0) i \<noteq> 0 then 0 else elem (tlog2 lg (tabs ?c)) i)"
    unfolding tswitch_s_def using tbin_same_shape [of "tlog2 lg (tabs ?c)" "teq_s ?c 0"]
    by simp
  moreover have "elem (teq_s ?c 0) i = (if elem ?c i = 0 then 1 else 0)"
    using wf sh assms by (simp add: teq_s_def elem_tmap)
  moreover have "elem (tlog2 lg (tabs ?c)) i = lg \<bar>elem ?c i\<bar>"
    using wf sh assms by (simp add: tlog2_def tabs_def elem_tmap)
  ultimately show ?thesis
    using assms by (simp add: batch_locals_simps elem_tabulate)
qed

lemma elem_loc_centered_ap2:
  assumes "i \<in> set (indices (shape x))"
  shows "elem (loc_centered_ap2 (batch_statistics lg rnd x A eps)) i
         = 2 powr real_of_int (rnd (elem (loc_centered_log2 (batch_statistics lg rnd x A eps)) i))"
  using assms
  by (simp add: batch_locals_simps(4) tpow_s_def tround_def elem_tmap)

text \<open>The summand of line 87.  Where the centred value is 0 the product is 0 whatever the
  power of two is, so the guard of line 84 does not show in it.\<close>

lemma elem_contribution:
  assumes "i \<in> set (indices (shape x))"
  shows "elem (tmul (tabs (loc_centered (batch_statistics lg rnd x A eps)))
                    (loc_centered_ap2 (batch_statistics lg rnd x A eps))) i
         = \<bar>elem x i - spec_mean A x (zero_axes A i)\<bar>
           * 2 powr real_of_int (rnd (lg \<bar>elem x i - spec_mean A x (zero_axes A i)\<bar>))"
proof -
  let ?b = "batch_statistics lg rnd x A eps"
  have "tmul (tabs (loc_centered ?b)) (loc_centered_ap2 ?b)
        = tabulate (shape x) (\<lambda>i. elem (tabs (loc_centered ?b)) i * elem (loc_centered_ap2 ?b) i)"
    unfolding tmul_def using tbin_same_shape [of "loc_centered_ap2 ?b" "tabs (loc_centered ?b)"]
    by simp
  moreover have "elem (tabs (loc_centered ?b)) i = \<bar>elem (loc_centered ?b) i\<bar>"
    using assms by (simp add: tabs_def elem_tmap)
  ultimately show ?thesis
    using assms
    by (simp add: elem_tabulate elem_loc_centered_ap2 elem_loc_centered_log2 elem_loc_centered)
qed

lemma elem_loc_std_87:
  assumes "j \<in> set (indices (keep_shape A (shape x)))"
  shows "elem (loc_std_87 (batch_statistics lg rnd x A eps)) j = spec_variance_surrogate lg rnd A x j"
proof -
  let ?b = "batch_statistics lg rnd x A eps"
  let ?t = "tmul (tabs (loc_centered ?b)) (loc_centered_ap2 ?b)"
  have sh: "shape ?t = shape x"
    by simp
  have eq: "map (elem ?t) (axis_group A (shape x) j)
        = map (\<lambda>i. \<bar>elem x i - spec_mean A x j\<bar>
                         * 2 powr real_of_int (rnd (lg \<bar>elem x i - spec_mean A x j\<bar>)))
              (axis_group A (shape x) j)"
    by (rule map_cong [OF refl]) (auto simp: in_axis_group_iff elem_contribution)
  have "elem (tmean ?t A) j
        = sum_list (map (elem ?t) (axis_group A (shape ?t) j))
          / real (length (axis_group A (shape ?t) j))"
    using assms sh by (simp add: elem_tmean spec_mean_def)
  also have "\<dots> = spec_variance_surrogate lg rnd A x j"
    by (simp only: sh eq spec_variance_surrogate_def)
  finally show ?thesis
    by (simp add: batch_locals_simps(5))
qed

lemma elem_loc_std_89:
  assumes "j \<in> set (indices (keep_shape A (shape x)))"
  shows "elem (loc_std_89 (batch_statistics lg rnd x A eps)) j = spec_std_raw lg rnd eps A x j"
  using assms
  by (simp add: batch_locals_simps(6) tinv_def tsqrt_def tadd_s_def elem_tmap elem_loc_std_87
      spec_std_raw_def)

lemma elem_loc_std_99:
  assumes "j \<in> set (indices (keep_shape A (shape x)))"
  shows "elem (loc_std_99 (batch_statistics lg rnd x A eps)) j = spec_std lg rnd eps A x j"
  using assms
  by (simp add: batch_locals_simps(7) tpow_s_def tround_def tlog2_def elem_tmap elem_loc_std_89
      spec_std_def)

section \<open>The forward operation\<close>

lemma training_normalized:
  assumes "shape (mean self) = keep_shape (axes self) (shape x)"
    and "shape (std self) = keep_shape (axes self) (shape x)"
  shows "fst (get_output_for lg rnd self x False)
         = nonlinearity self (spec_normalized lg rnd (epsilon self) (axes self) x)"
proof -
  let ?A = "axes self"
  let ?b = "batch_statistics lg rnd x ?A (epsilon self)"
  let ?c = "tsub x (loc_mean ?b)"
  have m0: "tadd (loc_mean ?b) (tmul_s 0 (mean self)) = loc_mean ?b"
    by (rule tadd_zero_running) (simp_all add: assms)
  have q0: "tadd (loc_std_99 ?b) (tmul_s 0 (std self)) = loc_std_99 ?b"
    by (rule tadd_zero_running) (simp_all add: assms)
  have out: "fst (get_output_for lg rnd self x False) = nonlinearity self (tmul ?c (loc_std_99 ?b))"
    by (simp add: get_output_for_def Let_def addbroadcast_def m0 q0)
  have c: "?c = loc_centered ?b"
    by (simp add: batch_locals_simps)
  have "tmul ?c (loc_std_99 ?b)
        = tabulate (shape ?c) (\<lambda>i. elem ?c i * elem (loc_std_99 ?b) (zero_axes ?A i))"
    unfolding tmul_def by (rule tbin_keep) simp
  also have "\<dots> = spec_normalized lg rnd (epsilon self) ?A x"
    unfolding spec_normalized_def c batch_locals_shape
    by (rule tabulate_cong) (simp add: elem_loc_centered elem_loc_std_99 zero_axes_in_indices)
  finally show ?thesis
    using out by simp
qed

section \<open>State updates, and the worked example\<close>

lemma ema_update:
  assumes "wf_tensor r" and "shape q = shape r" and "wf_tensor q"
    and "\<And>j. j \<in> set (indices (shape r)) \<Longrightarrow> elem q j = g j"
  shows "tadd (tmul_s (1 - a) r) (tmul_s a q) = spec_ema a r g"
proof -
  have "tadd (tmul_s (1 - a) r) (tmul_s a q)
        = tabulate (shape r) (\<lambda>j. elem (tmul_s (1 - a) r) j + elem (tmul_s a q) j)"
    unfolding tadd_def using tbin_same_shape [of "tmul_s a q" "tmul_s (1 - a) r"] assms(2)
    by simp
  also have "\<dots> = spec_ema a r g"
    unfolding spec_ema_def
    by (rule tabulate_cong) (simp add: tmul_s_def elem_tmap assms)
  finally show ?thesis .
qed

lemma training_state:
  "snd (get_output_for lg rnd self x False)
   = self\<lparr>mean := tadd (tmul_s (1 - alpha self) (mean self))
                      (tmul_s (alpha self) (loc_mean (batch_statistics lg rnd x (axes self) (epsilon self)))),
          std := tadd (tmul_s (1 - alpha self) (std self))
                     (tmul_s (alpha self) (loc_std_89 (batch_statistics lg rnd x (axes self) (epsilon self))))\<rparr>"
  by (simp add: get_output_for_def Let_def)

lemma running_mean_update:
  assumes "wf_tensor (mean self)" and "shape (mean self) = keep_shape (axes self) (shape x)"
  shows "mean (snd (get_output_for lg rnd self x False))
         = spec_ema (alpha self) (mean self) (spec_mean (axes self) x)"
proof -
  let ?b = "batch_statistics lg rnd x (axes self) (epsilon self)"
  have "tadd (tmul_s (1 - alpha self) (mean self)) (tmul_s (alpha self) (loc_mean ?b))
        = spec_ema (alpha self) (mean self) (spec_mean (axes self) x)"
    by (rule ema_update) (simp_all add: assms elem_loc_mean)
  then show ?thesis
    by (simp add: training_state)
qed

lemma running_std_update:
  assumes "wf_tensor (std self)" and "shape (std self) = keep_shape (axes self) (shape x)"
  shows "std (snd (get_output_for lg rnd self x False))
         = spec_ema (alpha self) (std self) (spec_std_raw lg rnd (epsilon self) (axes self) x)"
proof -
  let ?b = "batch_statistics lg rnd x (axes self) (epsilon self)"
  have "tadd (tmul_s (1 - alpha self) (std self)) (tmul_s (alpha self) (loc_std_89 ?b))
        = spec_ema (alpha self) (std self) (spec_std_raw lg rnd (epsilon self) (axes self) x)"
    by (rule ema_update) (simp_all add: assms elem_loc_std_89)
  then show ?thesis
    by (simp add: training_state)
qed

lemma example_shape: "shape example_input = [4, 3]"
  by (simp add: example_input_def)

lemma example_indices: "indices [1, 3] = [[0, 0], [0, 1], [0, 2]]"
  by code_simp

lemma example_group: "axis_group [0] [4, 3] [0, 1] = [[0, 1], [1, 1], [2, 1], [3, 1]]"
  by code_simp

lemma example_elems:
  "elem example_input [0, 1] = 2" "elem example_input [1, 1] = 2"
  "elem example_input [2, 1] = 2" "elem example_input [3, 1] = 2"
  by code_simp+

lemma example_mean: "spec_mean [0] example_input [0, 1] = 2"
  unfolding spec_mean_def example_shape example_group
  by (simp only: list.map sum_list.Cons sum_list.Nil example_elems list.size) simp

lemma example_variance: "spec_variance_surrogate lg rnd [0] example_input [0, 1] = 0"
  unfolding spec_variance_surrogate_def example_shape example_group example_mean
  by (simp only: list.map sum_list.Cons sum_list.Nil example_elems) simp

lemma example_std_raw: "spec_std_raw lg rnd (1 / 100000) [0] example_input [0, 1] = sqrt 100000"
  unfolding spec_std_raw_def example_variance
  by (simp add: real_sqrt_divide)


lemma pow2_ne_sqrt_100000: "2 powr real_of_int k \<noteq> sqrt 100000"
proof (cases "k \<le> 8")
  case True
  then have "(2::real) powr real_of_int k \<le> 2 powr 8"
    by (intro powr_mono) simp_all
  also have "\<dots> = 256"
    by simp
  also have "\<dots> < sqrt 100000"
    by (rule real_less_rsqrt) simp
  finally show ?thesis
    by simp
next
  case False
  then have "9 \<le> k"
    by simp
  have "sqrt 100000 < (512::real)"
    by (rule real_less_lsqrt) simp_all
  also have "\<dots> = 2 powr 9"
    by simp
  also have "\<dots> \<le> 2 powr real_of_int k"
    using \<open>9 \<le> k\<close> by (intro powr_mono) simp_all
  finally show ?thesis
    by simp
qed

lemma example_std: "std example_layer = \<lparr>shape = [1, 3], elems = [1, 1, 1]\<rparr>"
  by (simp add: example_layer_def)

lemma example_std_elem: "elem \<lparr>shape = [1, 3], elems = [1, 1, 1]\<rparr> [0, 1] = 1"
  by code_simp

lemma example_keep_shape: "keep_shape [0] [4, 3] = [1, 3]"
  by code_simp

lemma example_wf: "wf_tensor \<lparr>shape = [1, 3], elems = [1, 1, 1]\<rparr>"
  by code_simp

lemma example_member: "[0, 1] \<in> set (indices [1, 3])"
  by code_simp

lemma example_fields:
  "alpha example_layer = 1 / 8" "epsilon example_layer = 1 / 100000"
  "axes example_layer = [0]"
  by (simp_all add: example_layer_def)

lemma example_running_std:
  "elem (std (snd (get_output_for lg rnd example_layer example_input False))) [0, 1]
   = 7 / 8 + sqrt 100000 / 8"
proof -
  have wf: "wf_tensor (std example_layer)"
    unfolding example_std by (rule example_wf)
  have sh: "shape (std example_layer) = keep_shape (axes example_layer) (shape example_input)"
    unfolding example_fields example_shape example_keep_shape example_std by simp
  have "std (snd (get_output_for lg rnd example_layer example_input False))
        = spec_ema (alpha example_layer) (std example_layer)
            (spec_std_raw lg rnd (epsilon example_layer) (axes example_layer) example_input)"
    by (rule running_std_update [OF wf sh])
  also have "elem \<dots> [0, 1]
             = (1 - alpha example_layer) * elem (std example_layer) [0, 1]
               + alpha example_layer
                 * spec_std_raw lg rnd (epsilon example_layer) (axes example_layer) example_input [0, 1]"
    using example_member
    by (simp only: spec_ema_def elem_tabulate example_std tensor.simps if_True)
  also have "\<dots> = (1 - 1 / 8) * 1 + 1 / 8 * sqrt 100000"
    by (simp only: example_fields example_std example_std_elem example_std_raw)
  also have "\<dots> = 7 / 8 + sqrt 100000 / 8"
    by simp
  finally show ?thesis .
qed

lemma example_ok:
  "wf_tensor (std example_layer)" "wf_tensor (mean example_layer)"
  "shape (std example_layer) = keep_shape (axes example_layer) (shape example_input)"
  "shape (mean example_layer) = keep_shape (axes example_layer) (shape example_input)"
proof -
  have "mean example_layer = \<lparr>shape = [1, 3], elems = [0, 0, 0]\<rparr>"
    by (simp add: example_layer_def)
  moreover have "wf_tensor \<lparr>shape = [1, 3], elems = [0, 0, 0]\<rparr>"
    by code_simp
  ultimately show "wf_tensor (mean example_layer)"
    by (simp only:)
  show "wf_tensor (std example_layer)"
    unfolding example_std by (rule example_wf)
  show "shape (std example_layer) = keep_shape (axes example_layer) (shape example_input)"
    unfolding example_fields example_shape example_keep_shape example_std by simp
  show "shape (mean example_layer) = keep_shape (axes example_layer) (shape example_input)"
    unfolding example_fields example_shape example_keep_shape by (simp add: example_layer_def)
qed

lemma pow2_ratio:
  assumes "c \<noteq> 0" and "\<bar>real_of_int k - log 2 \<bar>c\<bar>\<bar> \<le> 1 / 2"
  shows "2 powr (- 1 / 2) \<le> 2 powr real_of_int k / \<bar>c\<bar>"
    and "2 powr real_of_int k / \<bar>c\<bar> \<le> 2 powr (1 / 2)"
proof -
  have pos: "0 < \<bar>c\<bar>"
    using assms(1) by simp
  then have "\<bar>c\<bar> = 2 powr log 2 \<bar>c\<bar>"
    by simp
  then have ratio: "2 powr real_of_int k / \<bar>c\<bar> = 2 powr (real_of_int k - log 2 \<bar>c\<bar>)"
    by (metis powr_diff)
  have "- 1 / 2 \<le> real_of_int k - log 2 \<bar>c\<bar>" and "real_of_int k - log 2 \<bar>c\<bar> \<le> 1 / 2"
    using assms(2) by linarith+
  then show "2 powr (- 1 / 2) \<le> 2 powr real_of_int k / \<bar>c\<bar>"
    and "2 powr real_of_int k / \<bar>c\<bar> \<le> 2 powr (1 / 2)"
    unfolding ratio by simp_all
qed

lemma example_index_0_1: "[0, 1] \<in> set (indices (shape example_input))"
  unfolding example_shape by code_simp

lemma example_index_3_0: "[3, 0] \<in> set (indices (shape example_input))"
  unfolding example_shape by code_simp

lemma example_zero_axes: "zero_axes [0] [0, 1] = [0, 1]" "zero_axes [0] [3, 0] = [0, 0]"
  by code_simp+

lemma example_group_0: "axis_group [0] [4, 3] [0, 0] = [[0, 0], [1, 0], [2, 0], [3, 0]]"
  by code_simp

lemma example_elems_0:
  "elem example_input [0, 0] = 1" "elem example_input [1, 0] = 1"
  "elem example_input [2, 0] = 1" "elem example_input [3, 0] = 5"
  by code_simp+

lemma example_mean_0: "spec_mean [0] example_input [0, 0] = 2"
  unfolding spec_mean_def example_shape example_group_0
  by (simp only: list.map sum_list.Cons sum_list.Nil example_elems_0 list.size) simp

lemma example_centered_0_1:
  "elem (loc_centered (batch_statistics lg rnd example_input [0] eps)) [0, 1] = 0"
  by (simp only: elem_loc_centered [OF example_index_0_1] example_zero_axes example_mean
      example_elems)

lemma example_centered_3_0:
  "elem (loc_centered (batch_statistics lg rnd example_input [0] eps)) [3, 0] = 3"
  by (simp only: elem_loc_centered [OF example_index_3_0] example_zero_axes example_mean_0
      example_elems_0)

lemma example_kept_index: "[0, 1] \<in> set (indices (keep_shape [0] (shape example_input)))"
  unfolding example_shape example_keep_shape by (rule example_member)

lemma round_to_nearest: "rounds_to_nearest round v"
  unfolding rounds_to_nearest_def by (rule of_int_round_abs_le)

section \<open>The constructor\<close>

lemma list_assign_in_range:
  assumes "- int (length xs) \<le> i" and "i < int (length xs)"
  shows "list_assign xs i v
         = Inr (xs[nat (if i < 0 then int (length xs) + i else i) := v])"
  using assms by (simp add: list_assign_def Let_def)

lemma list_assign_out_of_range:
  assumes "\<not> (- int (length xs) \<le> i \<and> i < int (length xs))"
  shows "list_assign xs i v = Inl IndexError"
  using assms by (auto simp: list_assign_def Let_def)

lemma is_reduced_Cons:
  assumes "- int n \<le> a" and "a < int n" and "k < n"
  shows "is_reduced (a # as) n k
         \<longleftrightarrow> k = nat (if a < 0 then int n + a else a) \<or> is_reduced as n k"
  using assms by (auto simp: is_reduced_def)

lemma is_reduced_Nil [simp]: "\<not> is_reduced [] n k"
  by (simp add: is_reduced_def)

lemma mark_axes_in_range:
  assumes "axes_in_range as (length sh)" and "length bc = length sh"
  shows "\<exists>bc'. mark_axes as (sh, bc)
               = Inr (map (\<lambda>k. if is_reduced as (length sh) k then Some 1 else sh ! k)
                       [0..<length sh], bc')"
  using assms
proof (induction as arbitrary: sh bc)
  case Nil
  then show ?case
    by (simp add: map_nth)
next
  case (Cons a as)
  let ?n = "length sh"
  let ?j = "nat (if a < 0 then int ?n + a else a)"
  have a: "- int ?n \<le> a" "a < int ?n" and rest: "axes_in_range as ?n"
    using Cons.prems(1) by (simp_all add: axes_in_range_def)
  have a': "- int (length bc) \<le> a" "a < int (length bc)"
    using a Cons.prems(2) by simp_all
  have step: "mark_axes (a # as) (sh, bc) = mark_axes as (sh[?j := Some 1], bc[?j := True])"
    using list_assign_in_range [OF a, of "Some 1"] list_assign_in_range [OF a', of True]
      Cons.prems(2)
    by simp
  obtain bc' where ih: "mark_axes as (sh[?j := Some 1], bc[?j := True])
      = Inr (map (\<lambda>k. if is_reduced as ?n k then Some 1 else sh[?j := Some 1] ! k) [0..<?n],
             bc')"
    using Cons.IH [of "sh[?j := Some 1]" "bc[?j := True]"] rest Cons.prems(2) by auto
  have "map (\<lambda>k. if is_reduced as ?n k then Some 1 else sh[?j := Some 1] ! k) [0..<?n]
        = map (\<lambda>k. if is_reduced (a # as) ?n k then Some 1 else sh ! k) [0..<?n]"
    by (rule map_cong [OF refl]) (simp add: is_reduced_Cons [OF a] nth_list_update)
  then show ?case
    using step ih by simp
qed

lemma mark_axes_out_of_range:
  assumes "\<not> axes_in_range as (length sh)" and "length bc = length sh"
  shows "mark_axes as (sh, bc) = Inl IndexError"
  using assms
proof (induction as arbitrary: sh bc)
  case Nil
  then show ?case
    by (simp add: axes_in_range_def)
next
  case (Cons a as)
  show ?case
  proof (cases "- int (length sh) \<le> a \<and> a < int (length sh)")
    case False
    then show ?thesis
      using list_assign_out_of_range [of sh a "Some 1"] by simp
  next
    case True
    let ?j = "nat (if a < 0 then int (length sh) + a else a)"
    have a: "- int (length sh) \<le> a" "a < int (length sh)"
      using True by simp_all
    have a': "- int (length bc) \<le> a" "a < int (length bc)"
      using a Cons.prems(2) by simp_all
    have step: "mark_axes (a # as) (sh, bc) = mark_axes as (sh[?j := Some 1], bc[?j := True])"
      using list_assign_in_range [OF a, of "Some 1"] list_assign_in_range [OF a', of True]
        Cons.prems(2)
      by simp
    have "\<not> axes_in_range as (length (sh[?j := Some 1]))"
      using Cons.prems(1) True by (simp add: axes_in_range_def)
    then show ?thesis
      using step Cons.IH [of "sh[?j := Some 1]" "bc[?j := True]"] Cons.prems(2) by simp
  qed
qed

lemma list_ex_map: "list_ex P (map f xs) = list_ex (\<lambda>k. P (f k)) xs"
  by (induction xs) simp_all

lemma list_ex_marked:
  "list_ex (\<lambda>size. size = None)
     (map (\<lambda>k. if is_reduced A (length sh) k then Some 1 else sh ! k) [0..<length sh])
   \<longleftrightarrow> unspecified_kept_axis A sh"
  unfolding list_ex_map unspecified_kept_axis_def
  by (rule list_ex_cong [OF refl]) simp

lemma map_the_marked:
  "map (\<lambda>size. nat (the size))
     (map (\<lambda>k. if is_reduced A (length sh) k then Some 1 else sh ! k) [0..<length sh])
   = param_shape A sh"
  by (simp add: param_shape_def comp_def if_distrib cong: if_cong)

text \<open>The outcome of the constructor, for every argument.\<close>

lemma constructor_result:
  "BatchNormSfhitPow2Layer inc ax eps al nl
   = (if has_non_positive_size (incoming_shape inc) then Inl non_positive_dimension
      else if \<not> axes_in_range (resolve_axes ax (length (incoming_shape inc)))
                  (length (incoming_shape inc)) then Inl IndexError
      else if unspecified_kept_axis (resolve_axes ax (length (incoming_shape inc)))
                (incoming_shape inc) then Inl configuration_error
      else Inr (new_layer inc ax eps al nl))"
proof -
  let ?sh = "incoming_shape inc"
  let ?A = "resolve_axes ax (length ?sh)"
  show ?thesis
  proof (cases "has_non_positive_size ?sh")
    case True
    then show ?thesis
      by (simp add: BatchNormSfhitPow2Layer_def)
  next
    case positive: False
    show ?thesis
    proof (cases "axes_in_range ?A (length ?sh)")
      case False
      then show ?thesis
        using positive
          mark_axes_out_of_range [of ?A ?sh "replicate (length ?sh) False"]
        by (simp add: BatchNormSfhitPow2Layer_def Let_def)
    next
      case True
      then obtain bc' where "mark_axes ?A (?sh, replicate (length ?sh) False)
          = Inr (map (\<lambda>k. if is_reduced ?A (length ?sh) k then Some 1 else ?sh ! k)
                   [0..<length ?sh], bc')"
        using mark_axes_in_range [of ?A ?sh "replicate (length ?sh) False"] by auto
      then have "BatchNormSfhitPow2Layer inc ax eps al nl
                 = (if unspecified_kept_axis ?A ?sh then Inl configuration_error
                    else Inr (new_layer inc ax eps al nl))"
        using positive unfolding BatchNormSfhitPow2Layer_def Let_def new_layer_def
        by (simp only: sum.case prod.case list_ex_marked map_the_marked if_False)
      then show ?thesis
        using positive True by simp
    qed
  qed
qed

lemma unspecified_kept_axis_iff:
  "unspecified_kept_axis A sh
   \<longleftrightarrow> (\<exists>k<length sh. \<not> is_reduced A (length sh) k \<and> sh ! k = None)"
  by (auto simp: unspecified_kept_axis_def list_ex_iff)

lemma errors_distinct [simp]:
  "configuration_error \<noteq> non_positive_dimension" "non_positive_dimension \<noteq> configuration_error"
  "configuration_error \<noteq> IndexError" "IndexError \<noteq> configuration_error"
  "non_positive_dimension \<noteq> IndexError" "IndexError \<noteq> non_positive_dimension"
  "configuration_error \<noteq> KeyError" "non_positive_dimension \<noteq> KeyError"
  by (simp_all add: configuration_error_def non_positive_dimension_def)

lemma constructor_Inr:
  assumes "BatchNormSfhitPow2Layer inc ax eps al nl = Inr self"
  shows "input_shape self = incoming_shape inc"
    and "input_layer self = incoming_layer inc"
    and "axes self = resolve_axes ax (length (incoming_shape inc))"
    and "epsilon self = eps" and "alpha self = al"
    and "nonlinearity self = (case nl of None \<Rightarrow> identity | Some f \<Rightarrow> f)"
    and "centered self = constant_param 0 (param_shape (axes self) (input_shape self))"
    and "mean self = constant_param 0 (param_shape (axes self) (input_shape self))"
    and "std self = constant_param 1 (param_shape (axes self) (input_shape self))"
    and "\<not> has_non_positive_size (input_shape self)"
    and "axes_in_range (axes self) (length (input_shape self))"
    and "\<not> unspecified_kept_axis (axes self) (input_shape self)"
proof -
  have self: "self = new_layer inc ax eps al nl"
    and ok: "\<not> has_non_positive_size (incoming_shape inc)"
      "axes_in_range (resolve_axes ax (length (incoming_shape inc))) (length (incoming_shape inc))"
      "\<not> unspecified_kept_axis (resolve_axes ax (length (incoming_shape inc))) (incoming_shape inc)"
    using assms unfolding constructor_result by (simp_all split: if_splits)
  show "input_shape self = incoming_shape inc"
    and "input_layer self = incoming_layer inc"
    and "axes self = resolve_axes ax (length (incoming_shape inc))"
    and "epsilon self = eps" and "alpha self = al"
    and "nonlinearity self = (case nl of None \<Rightarrow> identity | Some f \<Rightarrow> f)"
    and "centered self = constant_param 0 (param_shape (axes self) (input_shape self))"
    and "mean self = constant_param 0 (param_shape (axes self) (input_shape self))"
    and "std self = constant_param 1 (param_shape (axes self) (input_shape self))"
    and "\<not> has_non_positive_size (input_shape self)"
    and "axes_in_range (axes self) (length (input_shape self))"
    and "\<not> unspecified_kept_axis (axes self) (input_shape self)"
    using ok by (simp_all add: self new_layer_def)
qed

lemma param_shape_matches:
  assumes "matches_input_shape self x"
  shows "param_shape (axes self) (input_shape self) = keep_shape (axes self) (shape x)"
proof -
  have len: "length (shape x) = length (input_shape self)"
    and each: "\<And>k. k < length (input_shape self) \<Longrightarrow>
                 is_reduced (axes self) (length (input_shape self)) k
                 \<or> input_shape self ! k = Some (int (shape x ! k))"
    using assms by (auto simp: matches_input_shape_def list_all_iff)
  show ?thesis
    unfolding param_shape_def keep_shape_def len
  proof (rule map_cong [OF refl])
    fix k
    assume "k \<in> set [0..<length (input_shape self)]"
    then have "k < length (input_shape self)"
      by simp
    from each [OF this]
    show "(if is_reduced (axes self) (length (input_shape self)) k then 1
           else nat (the (input_shape self ! k)))
          = (if is_reduced (axes self) (length (input_shape self)) k then 1 else shape x ! k)"
      by auto
  qed
qed

lemma elem_constant_param:
  "elem (constant_param c s) j = (if j \<in> set (indices s) then c else 0)"
  by (simp add: constant_param_def elem_tabulate)

lemma shape_constant_param [simp]: "shape (constant_param c s) = s"
  by (simp add: constant_param_def)

lemma wf_constant_param [simp]: "wf_tensor (constant_param c s)"
  by (simp add: constant_param_def)

text \<open>Subtracting zeros and multiplying by ones of the reduced shape changes nothing.\<close>

lemma normalize_with_initial_statistics:
  assumes "wf_tensor x"
  shows "tmul (tsub x (constant_param 0 (keep_shape A (shape x))))
              (constant_param 1 (keep_shape A (shape x))) = x"
proof -
  let ?p = "keep_shape A (shape x)"
  have "tsub x (constant_param 0 ?p)
        = tabulate (shape x) (\<lambda>i. elem x i - elem (constant_param 0 ?p) (zero_axes A i))"
    unfolding tsub_def by (rule tbin_keep) simp
  also have "\<dots> = tabulate (shape x) (elem x)"
    by (simp add: elem_constant_param)
  also have "\<dots> = x"
    by (rule tabulate_elem [OF assms])
  finally have sub: "tsub x (constant_param 0 ?p) = x" .
  have "tmul x (constant_param 1 ?p)
        = tabulate (shape x) (\<lambda>i. elem x i * elem (constant_param 1 ?p) (zero_axes A i))"
    unfolding tmul_def by (rule tbin_keep) simp
  also have "\<dots> = tabulate (shape x) (elem x)"
    by (rule tabulate_cong) (simp add: elem_constant_param zero_axes_in_indices)
  also have "\<dots> = x"
    by (rule tabulate_elem [OF assms])
  finally show ?thesis
    by (simp only: sub)
qed

lemma example_param_shape: "param_shape [0] [None, Some 3] = [1, 3]"
  by code_simp

lemma example_constants:
  "constant_param 0 [1, 3] = \<lparr>shape = [1, 3], elems = [0, 0, 0]\<rparr>"
  "constant_param 1 [1, 3] = \<lparr>shape = [1, 3], elems = [1, 1, 1]\<rparr>"
  by code_simp+

lemma example_constructed:
  "BatchNormSfhitPow2Layer (InShape [None, Some 3]) AxesNone (1 / 100000) (1 / 8) None
   = Inr example_layer"
proof -
  have sh: "incoming_shape (InShape [None, Some 3]) = [None, Some 3]"
    and ly: "incoming_layer (InShape [None, Some 3]) = None"
    and A: "resolve_axes AxesNone (length [None, Some (3::int)]) = [0]"
    by (simp_all add: incoming_shape_def incoming_layer_def resolve_axes_def)
  have p: "\<not> has_non_positive_size [None, Some 3]"
    by code_simp
  have r: "axes_in_range [0] (length [None, Some (3::int)])"
    by code_simp
  have u: "\<not> unspecified_kept_axis [0] [None, Some 3]"
    by code_simp
  have "new_layer (InShape [None, Some 3]) AxesNone (1 / 100000) (1 / 8) None = example_layer"
    unfolding new_layer_def sh ly A example_param_shape example_constants example_layer_def
    by simp
  then show ?thesis
    unfolding constructor_result sh A using p r u by simp
qed

lemma example_matches: "matches_input_shape example_layer example_input"
  unfolding matches_input_shape_def example_shape
  by (simp add: example_layer_def is_reduced_def)

lemma example_input_wf: "wf_tensor example_input"
  unfolding example_input_def by code_simp

text \<open>With the default axes exactly the second axis is kept.\<close>

lemma default_axes_in_range:
  "axes_in_range (resolve_axes AxesNone n) n \<longleftrightarrow> n \<noteq> 0"
  by (auto simp: axes_in_range_def resolve_axes_def list_all_iff)

lemma default_axes_reduced:
  assumes "k < n"
  shows "is_reduced (resolve_axes AxesNone n) n k \<longleftrightarrow> k \<noteq> 1"
  using assms by (auto simp: is_reduced_def resolve_axes_def)

lemma default_unspecified_kept_axis:
  "unspecified_kept_axis (resolve_axes AxesNone (length sh)) sh
   \<longleftrightarrow> 1 < length sh \<and> sh ! 1 = None"
  unfolding unspecified_kept_axis_iff
  using default_axes_reduced [of _ "length sh"] by auto

lemma nonlinearity_after_normalization:
  "fst (get_output_for lg rnd self z det)
   = nonlinearity self (fst (get_output_for lg rnd (self\<lparr>nonlinearity := identity\<rparr>) z det))"
  by (simp add: get_output_for_def Let_def identity_def)

text \<open>
  The shapes that the theorems about the training branch ask for hold for a constructed
  layer and an input that matches its input shape, and a training call keeps them.
\<close>

lemma constructed_statistics_shape:
  assumes "BatchNormSfhitPow2Layer inc ax eps al nl = Inr self"
    and "matches_input_shape self x"
  shows "shape (mean self) = keep_shape (axes self) (shape x)"
    and "shape (std self) = keep_shape (axes self) (shape x)"
    and "wf_tensor (mean self)" and "wf_tensor (std self)"
  using constructor_Inr(8,9) [OF assms(1)] param_shape_matches [OF assms(2)]
  by simp_all

lemma training_keeps_statistics_shape:
  assumes "shape (mean self) = keep_shape (axes self) (shape x)"
    and "shape (std self) = keep_shape (axes self) (shape x)"
  shows "shape (mean (snd (get_output_for lg rnd self x False))) = shape (mean self)"
    and "shape (std (snd (get_output_for lg rnd self x False))) = shape (std self)"
    and "wf_tensor (mean (snd (get_output_for lg rnd self x False)))"
    and "wf_tensor (std (snd (get_output_for lg rnd self x False)))"
    and "axes (snd (get_output_for lg rnd self x False)) = axes self"
    and "matches_input_shape (snd (get_output_for lg rnd self x False)) x
         = matches_input_shape self x"
  using assms by (simp_all add: training_state matches_input_shape_def)


section \<open>Rounding\<close>

lemma round_half_even_nearest: "rounds_to_nearest round_half_even v"
proof -
  have "\<bar>real_of_int (round v) - v\<bar> \<le> 1 / 2"
    by (rule of_int_round_abs_le)
  then show ?thesis
    unfolding rounds_to_nearest_def round_half_even_def by auto
qed

lemma round_half_away_nearest: "rounds_to_nearest round_half_away_from_zero v"
proof (cases "0 \<le> v")
  case True
  have "real_of_int \<lfloor>v + 1 / 2\<rfloor> \<le> v + 1 / 2" "v + 1 / 2 < real_of_int \<lfloor>v + 1 / 2\<rfloor> + 1"
    by linarith+
  then have "\<bar>real_of_int \<lfloor>v + 1 / 2\<rfloor> - v\<bar> \<le> 1 / 2"
    by linarith
  then show ?thesis
    using True unfolding rounds_to_nearest_def round_half_away_from_zero_def by simp
next
  case False
  have "v - 1 / 2 \<le> real_of_int \<lceil>v - 1 / 2\<rceil>" "real_of_int \<lceil>v - 1 / 2\<rceil> < v - 1 / 2 + 1"
    by linarith+
  then have "\<bar>real_of_int \<lceil>v - 1 / 2\<rceil> - v\<bar> \<le> 1 / 2"
    by linarith
  then show ?thesis
    using False unfolding rounds_to_nearest_def round_half_away_from_zero_def by simp
qed

lemma round_tie:
  "round_half_even (5 / 2) = 2" "round_half_away_from_zero (5 / 2) = 3"
proof -
  have f: "\<lfloor>5 / 2 :: real\<rfloor> = 2"
    by linarith
  show "round_half_even (5 / 2) = 2"
    unfolding round_half_even_def f by simp
  have "\<lfloor>5 / 2 + 1 / 2 :: real\<rfloor> = 3"
    by linarith
  then show "round_half_away_from_zero (5 / 2) = 3"
    unfolding round_half_away_from_zero_def by simp
qed

text \<open>A real number closer to \<open>5 / 2\<close> than half the distance between two doubles there is
  rounded to \<open>5 / 2\<close>.\<close>

lemma float64_near_tie:
  assumes "\<bar>l - 5 / 2\<bar> < 1 / 2 ^ 52"
  shows "float64 l = 5 / 2"
proof -
  have small: "(1 :: real) / 2 ^ 52 \<le> 1 / 2"
    by simp
  have l: "2 < l" "l < 4"
    using assms small by linarith+
  have "(2 :: real) powr 1 < l" "l < 2 powr 2"
    using l by simp_all
  then have "1 < log 2 l" "log 2 l < 2"
    using l by (simp_all add: less_log_iff log_less_iff)
  then have e: "\<lfloor>log 2 \<bar>l\<bar>\<rfloor> = 1"
    using l by (simp add: floor_eq_iff)
  have "2 powr real_of_int (1 - 52) = 2 powr (- 51)"
    by simp
  also have "\<dots> = 1 / 2 powr 51"
    by (rule powr_minus_divide)
  also have "(2 :: real) powr 51 = 2 ^ 51"
    by (rule powr_numeral) simp
  finally have p: "2 powr real_of_int (1 - 52) = 1 / 2 ^ 51" .
  have "\<bar>l * 2 ^ 51 - 5 * 2 ^ 50\<bar> = \<bar>(l - 5 / 2) * 2 ^ 51\<bar>"
    by (simp add: algebra_simps)
  also have "\<dots> = \<bar>l - 5 / 2\<bar> * 2 ^ 51"
    by (simp only: abs_mult) simp
  also have "\<dots> < 1 / 2 ^ 52 * 2 ^ 51"
    using assms by (rule mult_strict_right_mono) simp
  also have "\<dots> = 1 / 2"
    by simp
  finally have "\<bar>l * 2 ^ 51 - real_of_int (5 * 2 ^ 50)\<bar> < 1 / 2"
    by simp
  then have r: "round (l * 2 ^ 51) = 5 * 2 ^ 50"
    by (rule round_unique')
  have "l \<noteq> 0"
    using l by simp
  then have "float64 l = real_of_int (round (l / (1 / 2 ^ 51))) * (1 / 2 ^ 51)"
    unfolding float64_def Let_def e p by (simp only: if_False)
  also have "l / (1 / 2 ^ 51) = l * 2 ^ 51"
    by simp
  also have "real_of_int (round (l * 2 ^ 51)) * (1 / 2 ^ 51) = 5 / 2"
    unfolding r by simp
  finally show ?thesis .
qed

text \<open>The logarithms of the two doubles next to \<open>2 powr (5 / 2)\<close> are closer to \<open>5 / 2\<close>
  than that.\<close>

lemma ln_2_ge_half: "1 / 2 \<le> ln (2 :: real)"
proof -
  have "ln (1 / 2 :: real) \<le> 1 / 2 - 1"
    by (rule ln_le_minus_one) simp
  moreover have "ln (1 / 2 :: real) = - ln 2"
    by (simp add: ln_div)
  ultimately show ?thesis
    by simp
qed

lemma powr_small:
  assumes "0 \<le> (e :: real)"
  shows "1 + e \<le> 2 powr (2 * e)"
proof -
  have "e * (1 / 2) \<le> e * ln (2 :: real)"
    using assms ln_2_ge_half by (rule mult_left_mono [rotated])
  then have "1 + e \<le> 1 + 2 * e * ln 2"
    by simp
  also have "\<dots> \<le> exp (2 * e * ln 2)"
    by (rule exp_ge_add_one_self)
  also have "\<dots> = 2 powr (2 * e)"
    by (simp add: powr_def)
  finally show ?thesis .
qed

lemma powr_square: "(2 powr a)\<^sup>2 = 2 powr (2 * a)" for a :: real
  by (simp add: power2_eq_square powr_add [symmetric])

lemma log2_above:
  assumes "0 < d" and "32 < d\<^sup>2" and "d\<^sup>2 < 32 * (1 + e)" and "0 \<le> e"
  shows "5 / 2 < log 2 d" and "log 2 d < 5 / 2 + e"
proof -
  have "(2 powr (5 / 2))\<^sup>2 = (2 :: real) powr 5"
    unfolding powr_square by simp
  also have "\<dots> = 32"
    by simp
  finally have "(2 powr (5 / 2))\<^sup>2 < d\<^sup>2"
    using assms(2) by simp
  then have "2 powr (5 / 2) < d"
    using assms(1) by (simp add: power2_less_imp_less)
  then show "5 / 2 < log 2 d"
    using assms(1) by (intro less_log_iff [THEN iffD2]) simp_all
  have "d\<^sup>2 < 32 * (1 + e)"
    by (rule assms(3))
  also have "\<dots> \<le> 32 * 2 powr (2 * e)"
    using powr_small [OF assms(4)] by simp
  also have "\<dots> = 2 powr 5 * 2 powr (2 * e)"
    by simp
  also have "\<dots> = (2 powr (5 / 2 + e))\<^sup>2"
    unfolding powr_square powr_add [symmetric] by (simp add: algebra_simps)
  finally have "d < 2 powr (5 / 2 + e)"
    by (simp add: power2_less_imp_less)
  then show "log 2 d < 5 / 2 + e"
    using assms(1) by (intro log_less_iff [THEN iffD2]) simp_all
qed

lemma log2_below:
  assumes "0 < d" and "d\<^sup>2 < 32" and "32 < d\<^sup>2 * (1 + e)" and "0 \<le> e"
  shows "5 / 2 - e < log 2 d" and "log 2 d < 5 / 2"
proof -
  have "(2 powr (5 / 2))\<^sup>2 = (2 :: real) powr 5"
    unfolding powr_square by simp
  also have "\<dots> = 32"
    by simp
  finally have "d\<^sup>2 < (2 powr (5 / 2))\<^sup>2"
    using assms(2) by simp
  then have "d < 2 powr (5 / 2)"
    by (simp add: power2_less_imp_less)
  then show "log 2 d < 5 / 2"
    using assms(1) by (intro log_less_iff [THEN iffD2]) simp_all
  have pos: "0 < 2 powr (2 * e)"
    by simp
  have "(2 powr (5 / 2 - e))\<^sup>2 * (1 + e) \<le> (2 powr (5 / 2 - e))\<^sup>2 * 2 powr (2 * e)"
    using powr_small [OF assms(4)] by (intro mult_left_mono) simp_all
  also have "\<dots> = 2 powr 5"
    unfolding powr_square powr_add [symmetric] by (simp add: algebra_simps)
  also have "\<dots> = 32"
    by simp
  also have "\<dots> < d\<^sup>2 * (1 + e)"
    by (rule assms(3))
  finally have "(2 powr (5 / 2 - e))\<^sup>2 < d\<^sup>2"
    using assms(4) by simp
  then have "2 powr (5 / 2 - e) < d"
    using assms(1) by (simp add: power2_less_imp_less)
  then show "5 / 2 - e < log 2 d"
    using assms(1) by (intro less_log_iff [THEN iffD2]) simp_all
qed

lemma above_tie_square:
  "0 < above_tie" "32 < above_tie\<^sup>2" "above_tie\<^sup>2 < 32 * (1 + 1 / 2 ^ 52)"
  by (simp_all add: above_tie_def power2_eq_square)

lemma below_tie_square:
  "0 < below_tie" "below_tie\<^sup>2 < 32" "32 < below_tie\<^sup>2 * (1 + 1 / 2 ^ 52)"
  by (simp_all add: below_tie_def power2_eq_square)

lemma log2_above_tie: "5 / 2 < log 2 above_tie" "log 2 above_tie < 5 / 2 + 1 / 2 ^ 52"
  by (rule log2_above [OF above_tie_square]; simp)+

lemma log2_below_tie: "5 / 2 - 1 / 2 ^ 52 < log 2 below_tie" "log 2 below_tie < 5 / 2"
  by (rule log2_below [OF below_tie_square]; simp)+

lemma float64_log2_tie:
  "float64_log2 above_tie = 5 / 2" "float64_log2 below_tie = 5 / 2"
proof -
  have "\<bar>log 2 above_tie - 5 / 2\<bar> < 1 / 2 ^ 52"
    using log2_above_tie by linarith
  then show "float64_log2 above_tie = 5 / 2"
    unfolding float64_log2_def by (rule float64_near_tie)
  have "\<bar>log 2 below_tie - 5 / 2\<bar> < 1 / 2 ^ 52"
    using log2_below_tie by linarith
  then show "float64_log2 below_tie = 5 / 2"
    unfolding float64_log2_def by (rule float64_near_tie)
qed

lemma ratio_above: "4 / above_tie < 2 powr (- 1 / 2)"
proof -
  have "2 powr (5 / 2) < above_tie"
    using log2_above_tie(1) above_tie_square(1) by (subst less_log_iff [symmetric]) simp_all
  then have "4 / above_tie < 4 / 2 powr (5 / 2)"
    using above_tie_square(1) by (intro divide_strict_left_mono) simp_all
  also have "\<dots> = (2 :: real) powr 2 / 2 powr (5 / 2)"
    by simp
  also have "\<dots> = 2 powr (- 1 / 2)"
    unfolding powr_diff [symmetric] by simp
  finally show ?thesis .
qed

lemma ratio_below: "2 powr (1 / 2) < 8 / below_tie"
proof -
  have less: "below_tie < 2 powr (5 / 2)"
    using log2_below_tie(2) below_tie_square(1) by (subst log_less_iff [symmetric]) simp_all
  have "2 powr (1 / 2) = (2 :: real) powr 3 / 2 powr (5 / 2)"
    unfolding powr_diff [symmetric] by simp
  also have "\<dots> = 8 / 2 powr (5 / 2)"
    by simp
  also have "\<dots> < 8 / below_tie"
    using less below_tie_square(1) by (intro divide_strict_left_mono) simp_all
  finally show ?thesis .
qed

lemma pow2_ratio_tolerance:
  assumes "c \<noteq> 0" and "\<bar>real_of_int k - l\<bar> \<le> 1 / 2" and "abs (l - log 2 (abs c)) \<le> \<delta>"
  shows "2 powr (- (1 / 2 + \<delta>)) \<le> 2 powr real_of_int k / \<bar>c\<bar>"
    and "2 powr real_of_int k / \<bar>c\<bar> \<le> 2 powr (1 / 2 + \<delta>)"
proof -
  have pos: "0 < \<bar>c\<bar>"
    using assms(1) by simp
  then have "\<bar>c\<bar> = 2 powr log 2 \<bar>c\<bar>"
    by simp
  then have ratio: "2 powr real_of_int k / \<bar>c\<bar> = 2 powr (real_of_int k - log 2 \<bar>c\<bar>)"
    by (metis powr_diff)
  have "- (1 / 2 + \<delta>) \<le> real_of_int k - log 2 \<bar>c\<bar>"
    and "real_of_int k - log 2 \<bar>c\<bar> \<le> 1 / 2 + \<delta>"
    using assms(2,3) by linarith+
  then show "2 powr (- (1 / 2 + \<delta>)) \<le> 2 powr real_of_int k / \<bar>c\<bar>"
    and "2 powr real_of_int k / \<bar>c\<bar> \<le> 2 powr (1 / 2 + \<delta>)"
    unfolding ratio by simp_all
qed

text \<open>The batch that holds the two doubles: its mean is 0, so the centred values are its
  elements.\<close>

lemma near_tie_shape: "shape example_near_tie = [4, 1]"
  by (simp add: example_near_tie_def)

lemma near_tie_index:
  "[0, 0] \<in> set (indices (shape example_near_tie))"
  "[1, 0] \<in> set (indices (shape example_near_tie))"
  "[2, 0] \<in> set (indices (shape example_near_tie))"
  "[3, 0] \<in> set (indices (shape example_near_tie))"
  unfolding near_tie_shape by code_simp+

lemma near_tie_zero_axes:
  "zero_axes [0] [0, 0] = [0, 0]" "zero_axes [0] [1, 0] = [0, 0]"
  "zero_axes [0] [2, 0] = [0, 0]" "zero_axes [0] [3, 0] = [0, 0]"
  by code_simp+

lemma near_tie_group: "axis_group [0] [4, 1] [0, 0] = [[0, 0], [1, 0], [2, 0], [3, 0]]"
  by code_simp

lemma near_tie_elems:
  "elem example_near_tie [0, 0] = above_tie" "elem example_near_tie [1, 0] = - above_tie"
  "elem example_near_tie [2, 0] = below_tie" "elem example_near_tie [3, 0] = - below_tie"
  by code_simp+

lemma near_tie_mean: "spec_mean [0] example_near_tie [0, 0] = 0"
  unfolding spec_mean_def near_tie_shape near_tie_group
  by (simp only: list.map sum_list.Cons sum_list.Nil near_tie_elems list.size) simp

lemma near_tie_centered:
  "elem (loc_centered (batch_statistics lg rnd example_near_tie [0] eps)) [0, 0] = above_tie"
  "elem (loc_centered (batch_statistics lg rnd example_near_tie [0] eps)) [1, 0] = - above_tie"
  "elem (loc_centered (batch_statistics lg rnd example_near_tie [0] eps)) [2, 0] = below_tie"
  "elem (loc_centered (batch_statistics lg rnd example_near_tie [0] eps)) [3, 0] = - below_tie"
  by (simp_all only: elem_loc_centered [OF near_tie_index(1)] elem_loc_centered [OF near_tie_index(2)]
      elem_loc_centered [OF near_tie_index(3)] elem_loc_centered [OF near_tie_index(4)]
      near_tie_zero_axes near_tie_mean near_tie_elems diff_zero)

lemma near_tie_ap2:
  "elem (loc_centered_ap2 (batch_statistics float64_log2 rnd example_near_tie [0] eps)) [0, 0]
   = 2 powr real_of_int (rnd (5 / 2))"
  "elem (loc_centered_ap2 (batch_statistics float64_log2 rnd example_near_tie [0] eps)) [2, 0]
   = 2 powr real_of_int (rnd (5 / 2))"
  using above_tie_square(1) below_tie_square(1)
  by (simp_all add: elem_loc_centered_ap2 [OF near_tie_index(1)] elem_loc_centered_ap2 [OF near_tie_index(3)]
      elem_loc_centered_log2 [OF near_tie_index(1)] elem_loc_centered_log2 [OF near_tie_index(3)]
      near_tie_centered float64_log2_tie)

section \<open>The checks of dimensions\<close>

lemma rebroadcast_perform_None:
  assumes "\<And>a. a \<in> set as \<Longrightarrow>
             0 \<le> (if a < 0 then int (length s) + a else a)
             \<and> (if a < 0 then int (length s) + a else a) < int (length s)
             \<and> s ! nat (if a < 0 then int (length s) + a else a) = 1"
  shows "rebroadcast_perform s as = None"
  using assms by (induction as) (simp_all add: Let_def)

text \<open>Every axis of the layer names a dimension of size 1 in the shape of the stored
  statistics, so \<^verbatim>\<open>T.addbroadcast\<close> accepts them.\<close>

lemma addbroadcast_keep_shape:
  assumes "axes_in_range A (length s)"
  shows "addbroadcast_signature (keep_shape A s, bc) A
         = Inr (keep_shape A s, map (\<lambda>k. int k \<in> set A \<or> bc ! k) [0..<length s])"
proof -
  have range: "- int (length s) \<le> a \<and> a < int (length s)" if "a \<in> set A" for a
    using assms that by (simp add: axes_in_range_def list_all_iff)
  have exists: "\<not> list_ex (\<lambda>axis. int (length (keep_shape A s)) \<le> axis) A"
    using range by (force simp: list_ex_iff)
  have "rebroadcast_perform (keep_shape A s) (sort A) = None"
  proof (rule rebroadcast_perform_None)
    fix a
    assume "a \<in> set (sort A)"
    then have a: "a \<in> set A"
      by simp
    let ?j = "if a < 0 then int (length s) + a else a"
    have j: "0 \<le> ?j" "?j < int (length s)"
      using range [OF a] by auto
    then have "is_reduced A (length s) (nat ?j)"
      using a by (auto simp: is_reduced_def)
    then have "keep_shape A s ! nat ?j = 1"
      using j by (simp add: keep_shape_def)
    then show "0 \<le> (if a < 0 then int (length (keep_shape A s)) + a else a)
               \<and> (if a < 0 then int (length (keep_shape A s)) + a else a)
                 < int (length (keep_shape A s))
               \<and> keep_shape A s
                 ! nat (if a < 0 then int (length (keep_shape A s)) + a else a) = 1"
      using j by (simp split: if_splits)
  qed
  then show ?thesis
    using exists by (simp add: addbroadcast_signature_def)
qed

text \<open>The input and a statistic agree on a reduced dimension when the dimension is marked
  as broadcast in the statistic or the input has size 1 there.\<close>

lemma dims_agree_keep_shape:
  "dims_agree (s, b) (keep_shape A s, q)
   \<longleftrightarrow> (\<forall>k<length s. is_reduced A (length s) k \<longrightarrow> q ! k \<or> s ! k = 1)"
  unfolding dims_agree_def keep_shape_def by (auto simp: list_all_iff)

lemma elemwise_keep_shape:
  "elemwise_signature (s, b) (keep_shape A s, q)
   = (if \<forall>k<length s. is_reduced A (length s) k \<longrightarrow> q ! k \<or> s ! k = 1
      then Inr (s, map (\<lambda>k. b ! k \<and> q ! k) [0..<length s])
      else Inl dimension_mismatch)"
  using dims_agree_keep_shape [of s b A q] by (simp add: elemwise_signature_def)

lemma elemwise_same_shape:
  "elemwise_signature (s, b) (s, q) = Inr (s, map (\<lambda>k. b ! k \<and> q ! k) [0..<length s])"
  by (simp add: elemwise_signature_def dims_agree_def list_all_iff)

lemma mean_signature_in_range:
  assumes "axes_in_range A (length s)"
  shows "mean_signature (s, b) A
         = Inr (keep_shape A s, map (\<lambda>k. is_reduced A (length s) k \<or> b ! k) [0..<length s])"
  using assms by (simp add: mean_signature_def)

text \<open>
  The checks of a call on a layer whose statistics have the shape of the input with size 1
  on the reduced axes: the call passes them if and only if every reduced dimension where
  the input has another size than 1 is named by an axis that is not negative.  In a
  training call the batch statistics broadcast on every reduced axis, but they lose the
  mark in lines 100 and 101, where the stored statistics are added.
\<close>

lemma check_get_output_for_contract:
  assumes "axes_in_range (axes self) (length (shape x))"
    and "shape (mean self) = keep_shape (axes self) (shape x)"
    and "shape (std self) = keep_shape (axes self) (shape x)"
  shows "\<exists>pattern.
           check_get_output_for self (shape x, bx) deterministic
           = (if \<forall>k<length (shape x).
                   is_reduced (axes self) (length (shape x)) k
                   \<longrightarrow> int k \<in> set (axes self) \<or> shape x ! k = 1
              then Inr (shape x, pattern) else Inl dimension_mismatch)"
proof -
  let ?A = "axes self"
  let ?s = "shape x"
  let ?C = "\<forall>k<length ?s. is_reduced ?A (length ?s) k \<longrightarrow> int k \<in> set ?A \<or> ?s ! k = 1"
  have r: "axes_in_range ?A (length (keep_shape ?A ?s))"
    using assms(1) by simp
  have kk: "keep_shape ?A (keep_shape ?A ?s) = keep_shape ?A ?s"
    by (simp add: keep_shape_def)
  have marks: "(\<forall>k<length ?s. is_reduced ?A (length ?s) k
                  \<longrightarrow> map (\<lambda>k. int k \<in> set ?A \<or> q k) [0..<length ?s] ! k \<or> ?s ! k = 1)
               \<longleftrightarrow> (\<forall>k<length ?s. is_reduced ?A (length ?s) k
                      \<longrightarrow> (int k \<in> set ?A \<or> q k) \<or> ?s ! k = 1)" for q
    by auto
  have never: "replicate n False ! k = False" if "k < n" for n k
    using that by simp
  show ?thesis
  proof (cases deterministic)
    case True
    have ab: "addbroadcast_signature (shared_signature (mean self)) ?A
              = Inr (keep_shape ?A ?s,
                     map (\<lambda>k. int k \<in> set ?A \<or> replicate (length ?s) False ! k) [0..<length ?s])"
      "addbroadcast_signature (shared_signature (std self)) ?A
              = Inr (keep_shape ?A ?s,
                     map (\<lambda>k. int k \<in> set ?A \<or> replicate (length ?s) False ! k) [0..<length ?s])"
      unfolding shared_signature_def assms(2,3) length_keep_shape
      by (rule addbroadcast_keep_shape [OF assms(1)])+
    have same: "(\<forall>k<length ?s. is_reduced ?A (length ?s) k
                   \<longrightarrow> (int k \<in> set ?A \<or> replicate (length ?s) False ! k) \<or> ?s ! k = 1)
                \<longleftrightarrow> ?C"
      by auto
    show ?thesis
      unfolding check_get_output_for_def raise_or_def ab
      using True by (simp add: elemwise_keep_shape marks same)
  next
    case False
    let ?n = "length ?s"
    let ?k = "keep_shape ?A ?s"
    let ?none = "replicate (length ?k) False"
    define m1 where "m1 = map (\<lambda>k. is_reduced ?A ?n k \<or> bx ! k) [0..<?n]"
    define u1 where "u1 = map (\<lambda>k. ?none ! k \<and> m1 ! k) [0..<length ?k]"
    define c1 where "c1 = map (\<lambda>k. bx ! k \<and> m1 ! k) [0..<?n]"
    define c2 where "c2 = map (\<lambda>k. c1 ! k \<and> c1 ! k) [0..<?n]"
    define c3 where "c3 = map (\<lambda>k. c1 ! k \<and> c2 ! k) [0..<?n]"
    define m2 where "m2 = map (\<lambda>k. is_reduced ?A ?n k \<or> c3 ! k) [0..<?n]"
    define u2 where "u2 = map (\<lambda>k. ?none ! k \<and> m2 ! k) [0..<length ?k]"
    define z1 where "z1 = map (\<lambda>k. m1 ! k \<and> ?none ! k) [0..<length ?k]"
    define z2 where "z2 = map (\<lambda>k. m2 ! k \<and> ?none ! k) [0..<length ?k]"
    define p1 where "p1 = map (\<lambda>k. int k \<in> set ?A \<or> z1 ! k) [0..<?n]"
    define p2 where "p2 = map (\<lambda>k. int k \<in> set ?A \<or> z2 ! k) [0..<?n]"
    define d1 where "d1 = map (\<lambda>k. bx ! k \<and> p1 ! k) [0..<?n]"
    define d2 where "d2 = map (\<lambda>k. d1 ! k \<and> p2 ! k) [0..<?n]"
    have s1: "mean_signature (?s, bx) ?A = Inr (?k, m1)"
      unfolding m1_def by (rule mean_signature_in_range [OF assms(1)])
    have s2: "elemwise_signature (shared_signature (mean self)) (?k, m1) = Inr (?k, u1)"
      unfolding shared_signature_def assms(2) u1_def by (rule elemwise_same_shape)
    have "\<forall>k<?n. is_reduced ?A ?n k \<longrightarrow> m1 ! k \<or> ?s ! k = 1"
      by (simp add: m1_def)
    then have s3: "elemwise_signature (?s, bx) (?k, m1) = Inr (?s, c1)"
      unfolding c1_def elemwise_keep_shape by (rule if_P)
    have s4: "elemwise_signature (?s, c1) (?s, c1) = Inr (?s, c2)"
      unfolding c2_def by (rule elemwise_same_shape)
    have s5: "elemwise_signature (?s, c1) (?s, c2) = Inr (?s, c3)"
      unfolding c3_def by (rule elemwise_same_shape)
    have s6: "mean_signature (?s, c3) ?A = Inr (?k, m2)"
      unfolding m2_def by (rule mean_signature_in_range [OF assms(1)])
    have s7: "elemwise_signature (shared_signature (std self)) (?k, m2) = Inr (?k, u2)"
      unfolding shared_signature_def assms(3) u2_def by (rule elemwise_same_shape)
    have s8: "elemwise_signature (?k, m1) (shared_signature (mean self)) = Inr (?k, z1)"
      unfolding shared_signature_def assms(2) z1_def by (rule elemwise_same_shape)
    have s9: "elemwise_signature (?k, m2) (shared_signature (std self)) = Inr (?k, z2)"
      unfolding shared_signature_def assms(3) z2_def by (rule elemwise_same_shape)
    have s10: "addbroadcast_signature (?k, z1) ?A = Inr (?k, p1)"
      unfolding p1_def by (rule addbroadcast_keep_shape [OF assms(1)])
    have s11: "addbroadcast_signature (?k, z2) ?A = Inr (?k, p2)"
      unfolding p2_def by (rule addbroadcast_keep_shape [OF assms(1)])
    have c1: "(\<forall>k<?n. is_reduced ?A ?n k \<longrightarrow> p1 ! k \<or> ?s ! k = 1) \<longleftrightarrow> ?C"
      by (simp add: p1_def z1_def)
    have c2: "(\<forall>k<?n. is_reduced ?A ?n k \<longrightarrow> p2 ! k \<or> ?s ! k = 1) \<longleftrightarrow> ?C"
      by (simp add: p2_def z2_def)
    have s12: "elemwise_signature (?s, bx) (?k, p1)
               = (if ?C then Inr (?s, d1) else Inl dimension_mismatch)"
      unfolding d1_def elemwise_keep_shape c1 by (rule refl)
    have s13: "elemwise_signature (?s, d1) (?k, p2)
               = (if ?C then Inr (?s, d2) else Inl dimension_mismatch)"
      unfolding d2_def elemwise_keep_shape c2 by (rule refl)
    have "check_get_output_for self (?s, bx) deterministic
          = (if ?C then Inr (?s, d2) else Inl dimension_mismatch)"
      unfolding check_get_output_for_def raise_or_def
      using False
      by (simp only: if_False s1 s2 s3 s4 s5 s6 s7 s8 s9 s10 s11 s12 s13 sum.case
          split: if_split) simp
    then show ?thesis
      by blast
  qed
qed

lemma get_output_for_checked_contract:
  assumes "axes_in_range (axes self) (length (shape x))"
    and "shape (mean self) = keep_shape (axes self) (shape x)"
    and "shape (std self) = keep_shape (axes self) (shape x)"
  shows "get_output_for_checked lg rnd self x bx deterministic
         = (if \<forall>k<length (shape x).
                 is_reduced (axes self) (length (shape x)) k
                 \<longrightarrow> int k \<in> set (axes self) \<or> shape x ! k = 1
            then Inr (get_output_for lg rnd self x deterministic)
            else Inl dimension_mismatch)"
proof -
  obtain pattern where "check_get_output_for self (shape x, bx) deterministic
      = (if \<forall>k<length (shape x).
              is_reduced (axes self) (length (shape x)) k
              \<longrightarrow> int k \<in> set (axes self) \<or> shape x ! k = 1
         then Inr (shape x, pattern) else Inl dimension_mismatch)"
    using check_get_output_for_contract [OF assms] by blast
  then show ?thesis
    by (simp add: get_output_for_checked_def)
qed

section \<open>Claims\<close>








text \<open>
  Claim C4, as amended.  The constructor has four outcomes, in this order.  A size of the
  input shape that is given and not positive: the constructor of the base class raises its
  \<^verbatim>\<open>ValueError\<close>.  Otherwise an axis that is no dimension index of the input shape: the
  assignment of line 49 raises \<^verbatim>\<open>IndexError\<close>.  Otherwise an axis that is not reduced and
  has the size \<open>None\<close>: the Configuration Error.  Otherwise the layer is returned.  So the
  Configuration Error is raised if and only if every given size is positive, every axis is
  a dimension index and some axis that is not reduced has the size \<open>None\<close>.  The input shape
  \<open>(None, 10)\<close> with the default axes constructs a layer; the input shape \<open>(None, None)\<close>
  with \<open>axes = (0,)\<close> raises the Configuration Error.
\<close>

theorem constructor_outcomes:
  "BatchNormSfhitPow2Layer inc ax eps al nl
   = (if has_non_positive_size (incoming_shape inc) then Inl non_positive_dimension
      else if \<not> axes_in_range (resolve_axes ax (length (incoming_shape inc)))
                  (length (incoming_shape inc)) then Inl IndexError
      else if (\<exists>k<length (incoming_shape inc).
                 \<not> is_reduced (resolve_axes ax (length (incoming_shape inc)))
                      (length (incoming_shape inc)) k
                 \<and> incoming_shape inc ! k = None) then Inl configuration_error
      else Inr (new_layer inc ax eps al nl))
   \<and> (BatchNormSfhitPow2Layer inc ax eps al nl = Inl configuration_error
      \<longleftrightarrow> \<not> has_non_positive_size (incoming_shape inc)
          \<and> axes_in_range (resolve_axes ax (length (incoming_shape inc)))
               (length (incoming_shape inc))
          \<and> (\<exists>k<length (incoming_shape inc).
                 \<not> is_reduced (resolve_axes ax (length (incoming_shape inc)))
                      (length (incoming_shape inc)) k
                 \<and> incoming_shape inc ! k = None))
   \<and> BatchNormSfhitPow2Layer (InShape [None, Some 10]) AxesNone eps al nl
     = Inr (new_layer (InShape [None, Some 10]) AxesNone eps al nl)
   \<and> BatchNormSfhitPow2Layer (InShape [None, None]) (AxesTuple [0]) eps al nl
     = Inl configuration_error"
proof -
  have cascade: "BatchNormSfhitPow2Layer inc ax eps al nl
   = (if has_non_positive_size (incoming_shape inc) then Inl non_positive_dimension
      else if \<not> axes_in_range (resolve_axes ax (length (incoming_shape inc)))
                  (length (incoming_shape inc)) then Inl IndexError
      else if (\<exists>k<length (incoming_shape inc).
                 \<not> is_reduced (resolve_axes ax (length (incoming_shape inc)))
                      (length (incoming_shape inc)) k
                 \<and> incoming_shape inc ! k = None) then Inl configuration_error
      else Inr (new_layer inc ax eps al nl))"
    unfolding unspecified_kept_axis_iff [symmetric] by (rule constructor_result)
  have iff: "BatchNormSfhitPow2Layer inc ax eps al nl = Inl configuration_error
      \<longleftrightarrow> \<not> has_non_positive_size (incoming_shape inc)
          \<and> axes_in_range (resolve_axes ax (length (incoming_shape inc)))
               (length (incoming_shape inc))
          \<and> (\<exists>k<length (incoming_shape inc).
                 \<not> is_reduced (resolve_axes ax (length (incoming_shape inc)))
                      (length (incoming_shape inc)) k
                 \<and> incoming_shape inc ! k = None)"
    unfolding unspecified_kept_axis_iff [symmetric] constructor_result by simp
  have sh1: "incoming_shape (InShape [None, Some 10]) = [None, Some 10]"
    and sh2: "incoming_shape (InShape [None, None]) = [None, None]"
    by (simp_all add: incoming_shape_def)
  have A1: "resolve_axes AxesNone (length [None, Some (10::int)]) = [0]"
    and A2: "resolve_axes (AxesTuple [0]) (length [None, None :: int option]) = [0]"
    by (simp_all add: resolve_axes_def)
  have p1: "\<not> has_non_positive_size [None, Some 10]"
    and r1: "axes_in_range [0] (length [None, Some (10::int)])"
    and u1: "\<not> unspecified_kept_axis [0] [None, Some 10]"
    by code_simp+
  have p2: "\<not> has_non_positive_size [None, None]"
    and r2: "axes_in_range [0] (length [None, None :: int option])"
    and u2: "unspecified_kept_axis [0] [None, None]"
    by code_simp+
  have ok: "BatchNormSfhitPow2Layer (InShape [None, Some 10]) AxesNone eps al nl
     = Inr (new_layer (InShape [None, Some 10]) AxesNone eps al nl)"
    unfolding constructor_result sh1 A1 using p1 r1 u1 by simp
  have err: "BatchNormSfhitPow2Layer (InShape [None, None]) (AxesTuple [0]) eps al nl
     = Inl configuration_error"
    unfolding constructor_result sh2 A2 using p2 r2 u2 by simp
  show ?thesis
    by (rule conjI [OF cascade conjI [OF iff conjI [OF ok err]]])
qed

theorem constructor_outcomes_witness:
  "\<not> has_non_positive_size (incoming_shape (InShape [Some 4, None]))
   \<and> axes_in_range (resolve_axes (AxesTuple [0]) (length (incoming_shape (InShape [Some 4, None]))))
       (length (incoming_shape (InShape [Some 4, None])))
   \<and> \<not> is_reduced (resolve_axes (AxesTuple [0]) (length (incoming_shape (InShape [Some 4, None]))))
          (length (incoming_shape (InShape [Some 4, None]))) 1
   \<and> incoming_shape (InShape [Some 4, None]) ! 1 = None
   \<and> BatchNormSfhitPow2Layer (InShape [Some 4, None]) (AxesTuple [0]) (1 / 100000) (1 / 8) None
     = Inl configuration_error"
proof -
  let ?inc = "InShape [Some 4, None]"
  let ?A = "resolve_axes (AxesTuple [0]) (length (incoming_shape ?inc))"
  have p: "\<not> has_non_positive_size (incoming_shape ?inc)"
    by (simp add: incoming_shape_def has_non_positive_size_def)
  have r: "axes_in_range ?A (length (incoming_shape ?inc))"
    by (simp add: axes_in_range_def resolve_axes_def incoming_shape_def)
  have k: "\<not> is_reduced ?A (length (incoming_shape ?inc)) 1"
    by (simp add: resolve_axes_def incoming_shape_def is_reduced_def)
  have n: "incoming_shape ?inc ! 1 = None"
    by (simp add: incoming_shape_def)
  have "\<exists>k<length (incoming_shape ?inc).
          \<not> is_reduced ?A (length (incoming_shape ?inc)) k \<and> incoming_shape ?inc ! k = None"
    using k n by (intro exI [of _ 1]) (simp add: incoming_shape_def)
  then have "BatchNormSfhitPow2Layer ?inc (AxesTuple [0]) (1 / 100000) (1 / 8) None
             = Inl configuration_error"
    using p r
      constructor_outcomes [where inc = ?inc and ax = "AxesTuple [0]" and eps = "1 / 100000"
        and al = "1 / 8" and nl = None, THEN conjunct2, THEN conjunct1]
    by blast
  then show ?thesis
    using p r k n by (intro conjI)
qed

text \<open>
  The claim as first stated fails for an axis that is no dimension index of the input
  shape.  With the input shape \<open>(None, None)\<close> and \<open>axes = (0, 5)\<close> the axis 1 is not
  reduced and has the size \<open>None\<close>, yet the constructor raises \<^verbatim>\<open>IndexError\<close> at line 49,
  before the check of line 50, and not the Configuration Error.
\<close>

theorem constructor_index_error:
  "\<not> is_reduced (resolve_axes (AxesTuple [0, 5])
                   (length (incoming_shape (InShape [None, None]))))
        (length (incoming_shape (InShape [None, None]))) 1
   \<and> incoming_shape (InShape [None, None]) ! 1 = None
   \<and> BatchNormSfhitPow2Layer (InShape [None, None]) (AxesTuple [0, 5]) (1 / 100000) (1 / 8) None
     = Inl IndexError
   \<and> BatchNormSfhitPow2Layer (InShape [None, None]) (AxesTuple [0, 5]) (1 / 100000) (1 / 8) None
     \<noteq> Inl configuration_error"
proof -
  have sh: "incoming_shape (InShape [None, None]) = [None, None]"
    by (simp add: incoming_shape_def)
  have A: "resolve_axes (AxesTuple [0, 5]) (length [None, None :: int option]) = [0, 5]"
    by (simp add: resolve_axes_def)
  have k: "\<not> is_reduced [0, 5] (length [None, None :: int option]) 1"
    by (simp add: is_reduced_def)
  have n: "[None, None :: int option] ! 1 = None"
    by simp
  have p: "\<not> has_non_positive_size [None, None]"
    and r: "\<not> axes_in_range [0, 5] (length [None, None :: int option])"
    by code_simp+
  have e: "BatchNormSfhitPow2Layer (InShape [None, None]) (AxesTuple [0, 5]) (1 / 100000) (1 / 8) None
     = Inl IndexError"
    unfolding constructor_result sh A using p r by simp
  have d: "BatchNormSfhitPow2Layer (InShape [None, None]) (AxesTuple [0, 5]) (1 / 100000) (1 / 8) None
     \<noteq> Inl configuration_error"
    unfolding e by simp
  show ?thesis
    unfolding sh A by (rule conjI [OF k conjI [OF n conjI [OF e d]]])
qed

text \<open>
  Claim C5.  At a position where the centred value \<open>x - mean\<close> is 0, \<^verbatim>\<open>T.log2\<close> of line 83
  gives minus infinity, and the logarithm term after the switch of line 84 is the finite
  value 0; the summand \<open>|centered| * centered_ap2\<close> of the variance surrogate is the finite
  value 0 there.  At every position the logarithm term, the power of two and the summand
  are finite, and they are the values that the tensors of the forward operation hold: no
  NaN and no infinity enters the variance surrogate.
\<close>

theorem zero_centered_contributes_zero:
  assumes "i \<in> set (indices (shape x))"
    and "elem (loc_centered (batch_statistics lg rnd x A eps)) i = 0"
  shows "log2_x lg (abs_x (Finite (elem (loc_centered (batch_statistics lg rnd x A eps)) i)))
         = NegInf
         \<and> centered_log2_at lg (elem (loc_centered (batch_statistics lg rnd x A eps)) i)
           = Finite 0
         \<and> elem (loc_centered_log2 (batch_statistics lg rnd x A eps)) i = 0
         \<and> contribution_at lg rnd (elem (loc_centered (batch_statistics lg rnd x A eps)) i)
           = Finite 0
         \<and> elem (tmul (tabs (loc_centered (batch_statistics lg rnd x A eps)))
                       (loc_centered_ap2 (batch_statistics lg rnd x A eps))) i = 0
         \<and> (\<forall>k\<in>set (indices (shape x)).
              centered_log2_at lg (elem (loc_centered (batch_statistics lg rnd x A eps)) k)
              = Finite (elem (loc_centered_log2 (batch_statistics lg rnd x A eps)) k)
              \<and> centered_ap2_at lg rnd (elem (loc_centered (batch_statistics lg rnd x A eps)) k)
                = Finite (elem (loc_centered_ap2 (batch_statistics lg rnd x A eps)) k)
              \<and> contribution_at lg rnd (elem (loc_centered (batch_statistics lg rnd x A eps)) k)
                = Finite (elem (tmul (tabs (loc_centered (batch_statistics lg rnd x A eps)))
                                     (loc_centered_ap2 (batch_statistics lg rnd x A eps))) k))"
proof -
  let ?b = "batch_statistics lg rnd x A eps"
  let ?t = "tmul (tabs (loc_centered ?b)) (loc_centered_ap2 ?b)"
  have every: "centered_log2_at lg (elem (loc_centered ?b) k) = Finite (elem (loc_centered_log2 ?b) k)
      \<and> centered_ap2_at lg rnd (elem (loc_centered ?b) k) = Finite (elem (loc_centered_ap2 ?b) k)
      \<and> contribution_at lg rnd (elem (loc_centered ?b) k) = Finite (elem ?t k)"
    if k: "k \<in> set (indices (shape x))" for k
  proof -
    have l: "centered_log2_at lg (elem (loc_centered ?b) k) = Finite (elem (loc_centered_log2 ?b) k)"
      by (simp add: centered_log2_at_def switch_x_def eq_x_def elem_loc_centered_log2 [OF k])
    have p: "centered_ap2_at lg rnd (elem (loc_centered ?b) k) = Finite (elem (loc_centered_ap2 ?b) k)"
      by (simp add: centered_ap2_at_def l elem_loc_centered_ap2 [OF k])
    have "?t = tabulate (shape x) (\<lambda>i. elem (tabs (loc_centered ?b)) i * elem (loc_centered_ap2 ?b) i)"
      unfolding tmul_def using tbin_same_shape [of "loc_centered_ap2 ?b" "tabs (loc_centered ?b)"]
      by simp
    moreover have "elem (tabs (loc_centered ?b)) k = \<bar>elem (loc_centered ?b) k\<bar>"
      using k by (simp add: tabs_def elem_tmap)
    ultimately have "elem ?t k = \<bar>elem (loc_centered ?b) k\<bar> * elem (loc_centered_ap2 ?b) k"
      using k by (simp add: elem_tabulate)
    then have c: "contribution_at lg rnd (elem (loc_centered ?b) k) = Finite (elem ?t k)"
      by (simp add: contribution_at_def p)
    show ?thesis
      by (rule conjI [OF l conjI [OF p c]])
  qed
  have unguarded: "log2_x lg (abs_x (Finite (elem (loc_centered ?b) i))) = NegInf"
    using assms(2) by simp
  have term0: "elem (loc_centered_log2 ?b) i = 0"
    using assms by (simp add: elem_loc_centered_log2)
  have guarded: "centered_log2_at lg (elem (loc_centered ?b) i) = Finite 0"
    using every [OF assms(1), THEN conjunct1] term0 by simp
  have "contribution_at lg rnd (elem (loc_centered ?b) i)
        = mul_x (Finite 0) (Finite (elem (loc_centered_ap2 ?b) i))"
    using every [OF assms(1), THEN conjunct2, THEN conjunct1] assms(2)
    by (simp add: contribution_at_def)
  then have contribution: "contribution_at lg rnd (elem (loc_centered ?b) i) = Finite 0"
    by simp
  have product0: "elem ?t i = 0"
    using every [OF assms(1), THEN conjunct2, THEN conjunct2] contribution by simp
  have all: "\<forall>k\<in>set (indices (shape x)).
      centered_log2_at lg (elem (loc_centered ?b) k) = Finite (elem (loc_centered_log2 ?b) k)
      \<and> centered_ap2_at lg rnd (elem (loc_centered ?b) k) = Finite (elem (loc_centered_ap2 ?b) k)
      \<and> contribution_at lg rnd (elem (loc_centered ?b) k) = Finite (elem ?t k)"
    using every by blast
  show ?thesis
    by (rule conjI [OF unguarded conjI [OF guarded conjI [OF term0 conjI [OF contribution
          conjI [OF product0 all]]]]])
qed

theorem zero_centered_contributes_zero_witness:
  "[0, 1] \<in> set (indices (shape example_input))
   \<and> elem (loc_centered (batch_statistics (log 2) round example_input [0] (1 / 100000))) [0, 1] = 0
   \<and> centered_log2_at (log 2)
       (elem (loc_centered (batch_statistics (log 2) round example_input [0] (1 / 100000))) [0, 1])
     = Finite 0
   \<and> contribution_at (log 2) round
       (elem (loc_centered (batch_statistics (log 2) round example_input [0] (1 / 100000))) [0, 1])
     = Finite 0
   \<and> contribution_at (log 2) round
       (elem (loc_centered (batch_statistics (log 2) round example_input [0] (1 / 100000))) [3, 0])
     = Finite (elem (tmul (tabs (loc_centered (batch_statistics (log 2) round example_input [0]
                                                (1 / 100000))))
                          (loc_centered_ap2 (batch_statistics (log 2) round example_input [0]
                                               (1 / 100000)))) [3, 0])"
proof -
  note th = zero_centered_contributes_zero
      [OF example_index_0_1 example_centered_0_1, where rnd = round and eps = "1 / 100000"]
  note all = th [THEN conjunct2, THEN conjunct2, THEN conjunct2, THEN conjunct2, THEN conjunct2]
  show ?thesis
    by (intro conjI example_index_0_1 example_centered_0_1
        th [THEN conjunct2, THEN conjunct1]
        th [THEN conjunct2, THEN conjunct2, THEN conjunct2, THEN conjunct1]
        all [rule_format, OF example_index_3_0, THEN conjunct2, THEN conjunct2])
qed

text \<open>
  Claim C6.  A call with \<open>deterministic = True\<close> returns the nonlinearity of
  \<open>(x - mean) * std\<close> for the stored mean and std, computes nothing from the batch (the
  result does not depend on the rounding) and leaves the layer as it was; a second such
  call returns the same tensor and the same layer.
\<close>

theorem inference_is_pure:
  "get_output_for lg rnd self x True
     = (nonlinearity self (tmul (tsub x (mean self)) (std self)), self)
   \<and> get_output_for lg' rnd' (snd (get_output_for lg rnd self x True)) x True
     = get_output_for lg rnd self x True"
  by (simp add: get_output_for_def addbroadcast_def)

text \<open>
  Claim C7, as amended.  At every position where the centred value \<open>c = x - mean\<close> is not
  0, the power of two \<open>2 powr round (log2 |c|)\<close> (\<^verbatim>\<open>centered_ap2\<close>) divided by \<open>|c|\<close> lies
  between \<open>2 powr - (1 / 2 + \<delta>)\<close> and \<open>2 powr (1 / 2 + \<delta>)\<close>, where \<open>\<delta>\<close> bounds the error
  of the computed logarithm at \<open>|c|\<close> and the rounding returns an integer nearest to the
  computed logarithm, as both modes of \<^verbatim>\<open>T.round\<close> do.  With an exact logarithm \<open>\<delta>\<close> is 0
  and the bounds are \<open>2 powr (- 1 / 2)\<close> and \<open>2 powr (1 / 2)\<close>.
\<close>

theorem power_of_two_ratio_bound:
  assumes "i \<in> set (indices (shape x))"
    and "elem (loc_centered (batch_statistics lg rnd x A eps)) i \<noteq> 0"
    and "abs (lg (abs (elem (loc_centered (batch_statistics lg rnd x A eps)) i))
              - log 2 (abs (elem (loc_centered (batch_statistics lg rnd x A eps)) i))) \<le> \<delta>"
    and "rounds_to_nearest rnd (lg (abs (elem (loc_centered (batch_statistics lg rnd x A eps)) i)))"
  shows "2 powr (- (1 / 2 + \<delta>))
           \<le> elem (loc_centered_ap2 (batch_statistics lg rnd x A eps)) i
             / abs (elem (loc_centered (batch_statistics lg rnd x A eps)) i)
         \<and> elem (loc_centered_ap2 (batch_statistics lg rnd x A eps)) i
             / abs (elem (loc_centered (batch_statistics lg rnd x A eps)) i)
           \<le> 2 powr (1 / 2 + \<delta>)"
proof -
  let ?b = "batch_statistics lg rnd x A eps"
  let ?c = "elem (loc_centered ?b) i"
  have ap2: "elem (loc_centered_ap2 ?b) i = 2 powr real_of_int (rnd (lg \<bar>?c\<bar>))"
    using assms(1,2) by (simp add: elem_loc_centered_ap2 elem_loc_centered_log2)
  have near: "\<bar>real_of_int (rnd (lg \<bar>?c\<bar>)) - lg \<bar>?c\<bar>\<bar> \<le> 1 / 2"
    using assms(4) by (simp add: rounds_to_nearest_def)
  show ?thesis
    unfolding ap2 using pow2_ratio_tolerance [OF assms(2) near assms(3)] by (rule conjI)
qed

theorem power_of_two_ratio_bound_witness:
  "[0, 0] \<in> set (indices (shape example_near_tie))
   \<and> elem (loc_centered (batch_statistics float64_log2 round_half_even example_near_tie [0]
              (1 / 100000))) [0, 0] \<noteq> 0
   \<and> abs (float64_log2 (abs (elem (loc_centered (batch_statistics float64_log2 round_half_even
                                               example_near_tie [0] (1 / 100000))) [0, 0]))
          - log 2 (abs (elem (loc_centered (batch_statistics float64_log2 round_half_even
                                         example_near_tie [0] (1 / 100000))) [0, 0])))
     \<le> 1 / 2 ^ 52
   \<and> rounds_to_nearest round_half_even
        (float64_log2 (abs (elem (loc_centered (batch_statistics float64_log2 round_half_even
                                             example_near_tie [0] (1 / 100000))) [0, 0])))
   \<and> 2 powr (- (1 / 2 + 1 / 2 ^ 52))
        \<le> elem (loc_centered_ap2 (batch_statistics float64_log2 round_half_even example_near_tie
                                    [0] (1 / 100000))) [0, 0]
          / abs (elem (loc_centered (batch_statistics float64_log2 round_half_even example_near_tie
                                  [0] (1 / 100000))) [0, 0])
   \<and> elem (loc_centered_ap2 (batch_statistics float64_log2 round_half_even example_near_tie
                               [0] (1 / 100000))) [0, 0]
        / abs (elem (loc_centered (batch_statistics float64_log2 round_half_even example_near_tie
                                [0] (1 / 100000))) [0, 0])
      \<le> 2 powr (1 / 2 + 1 / 2 ^ 52)"
proof -
  let ?b = "batch_statistics float64_log2 round_half_even example_near_tie [0] (1 / 100000)"
  have pos: "\<bar>above_tie\<bar> = above_tie"
    using above_tie_square(1) by simp
  have nz: "elem (loc_centered ?b) [0, 0] \<noteq> 0"
    unfolding near_tie_centered using above_tie_square(1) by simp
  have err: "abs (float64_log2 (abs (elem (loc_centered ?b) [0, 0]))
                  - log 2 (abs (elem (loc_centered ?b) [0, 0]))) \<le> 1 / 2 ^ 52"
    unfolding near_tie_centered pos float64_log2_tie using log2_above_tie by linarith
  have rn: "rounds_to_nearest round_half_even (float64_log2 (abs (elem (loc_centered ?b) [0, 0])))"
    by (rule round_half_even_nearest)
  note th = power_of_two_ratio_bound [OF near_tie_index(1) nz err rn]
  show ?thesis
    by (intro conjI near_tie_index(1) nz err rn th [THEN conjunct1] th [THEN conjunct2])
qed

text \<open>
  The claim as first stated fails in floating-point arithmetic.  In the batch
  \<open>example_near_tie\<close> no centred value is 0.  The logarithm of each of the two doubles next
  to \<open>2 powr (5 / 2)\<close>, rounded to a double, is \<open>5 / 2\<close>, a tie for \<^verbatim>\<open>T.round\<close>.  When ties go
  to the even integer the power of two at the double above is 4, and the ratio is less
  than \<open>2 powr (- 1 / 2)\<close>; when ties go away from zero the power of two at the double
  below is 8, and the ratio is greater than \<open>2 powr (1 / 2)\<close>.
\<close>

theorem power_of_two_ratio_exceeds:
  "elem (loc_centered (batch_statistics float64_log2 round_half_even example_near_tie [0]
           (1 / 100000))) [0, 0] \<noteq> 0
   \<and> elem (loc_centered (batch_statistics float64_log2 round_half_even example_near_tie [0]
             (1 / 100000))) [1, 0] \<noteq> 0
   \<and> elem (loc_centered (batch_statistics float64_log2 round_half_even example_near_tie [0]
             (1 / 100000))) [2, 0] \<noteq> 0
   \<and> elem (loc_centered (batch_statistics float64_log2 round_half_even example_near_tie [0]
             (1 / 100000))) [3, 0] \<noteq> 0
   \<and> elem (loc_centered_ap2 (batch_statistics float64_log2 round_half_even example_near_tie [0]
                               (1 / 100000))) [0, 0]
       / \<bar>elem (loc_centered (batch_statistics float64_log2 round_half_even example_near_tie [0]
                               (1 / 100000))) [0, 0]\<bar>
     < 2 powr (- 1 / 2)
   \<and> 2 powr (1 / 2)
     < elem (loc_centered_ap2 (batch_statistics float64_log2 round_half_away_from_zero
                                 example_near_tie [0] (1 / 100000))) [2, 0]
       / \<bar>elem (loc_centered (batch_statistics float64_log2 round_half_away_from_zero
                                 example_near_tie [0] (1 / 100000))) [2, 0]\<bar>"
proof -
  have a: "above_tie \<noteq> 0" "- above_tie \<noteq> 0" "\<bar>above_tie\<bar> = above_tie"
    and b: "below_tie \<noteq> 0" "- below_tie \<noteq> 0" "\<bar>below_tie\<bar> = below_tie"
    using above_tie_square(1) below_tie_square(1) by simp_all
  have even: "2 powr real_of_int (round_half_even (5 / 2)) / above_tie < 2 powr (- 1 / 2)"
    unfolding round_tie using ratio_above by simp
  have away: "2 powr (1 / 2) < 2 powr real_of_int (round_half_away_from_zero (5 / 2)) / below_tie"
    unfolding round_tie using ratio_below by simp
  show ?thesis
    unfolding near_tie_centered near_tie_ap2 a(3) b(3)
    by (intro conjI a(1,2) b(1,2) even away)
qed

text \<open>
  Claim C8, as amended.  Let \<open>L\<close> have a nonlinearity \<open>f\<close> and a bias that is one of its
  parameters.  \<^verbatim>\<open>batch_norm_pow_2\<close> always leaves \<open>L\<close> with the identity as nonlinearity,
  without the bias among its parameters and with \<open>b = None\<close>, also when it raises.  It then
  returns what the constructor returns on the modified \<open>L\<close>: the base class's \<^verbatim>\<open>ValueError\<close>
  when a size of \<open>L\<close>'s output shape is given and not positive, \<^verbatim>\<open>IndexError\<close> when the
  output shape is empty, the Configuration Error when the second axis has the size \<open>None\<close>,
  and otherwise a normalisation layer on the modified \<open>L\<close> with the nonlinearity \<open>f\<close>, whose
  output is \<open>f\<close> applied to the output of the same layer without nonlinearity.
\<close>

theorem wiring_helper:
  assumes "l_nonlinearity L = Some f"
    and "l_b L = Present (Some b)"
    and "b \<in> dom (l_params L)"
  defines "L' \<equiv> L\<lparr>l_nonlinearity := Some identity, l_params := (l_params L)(b := None),
                 l_b := Present None\<rparr>"
  defines "bn \<equiv> new_layer (InLayer L') AxesNone (1 / 100000) (1 / 8) (Some f)"
  shows "fst (batch_norm_pow_2 L) = L'
         \<and> l_nonlinearity L' = Some identity
         \<and> b \<notin> dom (l_params L')
         \<and> l_b L' = Present None
         \<and> snd (batch_norm_pow_2 L)
           = (if has_non_positive_size (l_output_shape L) then Inl non_positive_dimension
              else if l_output_shape L = [] then Inl IndexError
              else if 1 < length (l_output_shape L) \<and> l_output_shape L ! 1 = None
                   then Inl configuration_error
              else Inr bn)
         \<and> input_layer bn = Some L'
         \<and> nonlinearity bn = f
         \<and> (\<forall>lg rnd z det.
               fst (get_output_for lg rnd bn z det)
               = f (fst (get_output_for lg rnd (bn\<lparr>nonlinearity := identity\<rparr>) z det)))"
proof -
  let ?sh = "l_output_shape L"
  have shape': "incoming_shape (InLayer L') = ?sh"
    and layer': "incoming_layer (InLayer L') = Some L'"
    by (simp_all add: incoming_shape_def incoming_layer_def L'_def)
  have helper: "batch_norm_pow_2 L
        = (L', BatchNormSfhitPow2Layer (InLayer L') AxesNone (1 / 100000) (1 / 8) (Some f))"
    unfolding L'_def using assms(1-3) by (simp add: batch_norm_pow_2_def Let_def dict_del_def)
  have modified: "fst (batch_norm_pow_2 L) = L'"
    unfolding helper by simp
  have fields: "l_nonlinearity L' = Some identity" "b \<notin> dom (l_params L')"
      "l_b L' = Present None"
    by (simp_all add: L'_def)
  have result: "snd (batch_norm_pow_2 L)
           = (if has_non_positive_size (l_output_shape L) then Inl non_positive_dimension
              else if l_output_shape L = [] then Inl IndexError
              else if 1 < length (l_output_shape L) \<and> l_output_shape L ! 1 = None
                   then Inl configuration_error
              else Inr bn)"
    unfolding helper snd_conv constructor_result shape' default_axes_in_range
      default_unspecified_kept_axis bn_def
    by simp
  have stacked: "input_layer bn = Some L'" and nl: "nonlinearity bn = f"
    unfolding bn_def by (simp_all add: new_layer_def layer')
  have applied: "\<forall>lg rnd z det.
               fst (get_output_for lg rnd bn z det)
               = f (fst (get_output_for lg rnd (bn\<lparr>nonlinearity := identity\<rparr>) z det))"
    using nonlinearity_after_normalization [of _ _ bn] nl by simp
  show ?thesis
    by (rule conjI [OF modified conjI [OF fields(1) conjI [OF fields(2) conjI [OF fields(3)
          conjI [OF result conjI [OF stacked conjI [OF nl applied]]]]]]])
qed

theorem wiring_helper_witness:
  "l_nonlinearity example_dense_layer = Some rectify
   \<and> l_b example_dense_layer = Present (Some ''b'')
   \<and> ''b'' \<in> dom (l_params example_dense_layer)
   \<and> fst (batch_norm_pow_2 example_dense_layer)
     = example_dense_layer\<lparr>l_nonlinearity := Some identity,
         l_params := (l_params example_dense_layer)(''b'' := None), l_b := Present None\<rparr>
   \<and> snd (batch_norm_pow_2 example_dense_layer)
     = Inr (new_layer (InLayer (example_dense_layer\<lparr>l_nonlinearity := Some identity,
              l_params := (l_params example_dense_layer)(''b'' := None), l_b := Present None\<rparr>))
            AxesNone (1 / 100000) (1 / 8) (Some rectify))"
proof -
  have n: "l_nonlinearity example_dense_layer = Some rectify"
    and b: "l_b example_dense_layer = Present (Some ''b'')"
    and p: "''b'' \<in> dom (l_params example_dense_layer)"
    by (simp_all add: example_dense_layer_def)
  have s: "\<not> has_non_positive_size (l_output_shape example_dense_layer)"
    "l_output_shape example_dense_layer \<noteq> []"
    "\<not> (1 < length (l_output_shape example_dense_layer)
        \<and> l_output_shape example_dense_layer ! 1 = None)"
    by (simp_all add: example_dense_layer_def has_non_positive_size_def)
  note w = wiring_helper [OF n b p]
  have m: "fst (batch_norm_pow_2 example_dense_layer)
     = example_dense_layer\<lparr>l_nonlinearity := Some identity,
         l_params := (l_params example_dense_layer)(''b'' := None), l_b := Present None\<rparr>"
    by (rule w [THEN conjunct1])
  have r: "snd (batch_norm_pow_2 example_dense_layer)
     = Inr (new_layer (InLayer (example_dense_layer\<lparr>l_nonlinearity := Some identity,
              l_params := (l_params example_dense_layer)(''b'' := None), l_b := Present None\<rparr>))
            AxesNone (1 / 100000) (1 / 8) (Some rectify))"
    using w [THEN conjunct2, THEN conjunct2, THEN conjunct2, THEN conjunct2, THEN conjunct1] s
    by (simp only: if_False)
  show ?thesis
    by (rule conjI [OF n conjI [OF b conjI [OF p conjI [OF m r]]]])
qed

text \<open>
  Claim C8 as first stated fails: for a layer with a nonlinearity and a bias whose output
  shape is \<open>(None, None)\<close> the helper returns no layer.  The constructor it calls raises the
  Configuration Error, which is no check of an attribute's existence, and the layer given
  has lost its nonlinearity and its bias by then.
\<close>

theorem wiring_helper_raises:
  "l_nonlinearity example_unsized_layer = Some rectify
   \<and> l_b example_unsized_layer = Present (Some ''b'')
   \<and> ''b'' \<in> dom (l_params example_unsized_layer)
   \<and> snd (batch_norm_pow_2 example_unsized_layer) = Inl configuration_error
   \<and> l_nonlinearity (fst (batch_norm_pow_2 example_unsized_layer)) = Some identity
   \<and> ''b'' \<notin> dom (l_params (fst (batch_norm_pow_2 example_unsized_layer)))"
proof -
  have n: "l_nonlinearity example_unsized_layer = Some rectify"
    and b: "l_b example_unsized_layer = Present (Some ''b'')"
    and p: "''b'' \<in> dom (l_params example_unsized_layer)"
    by (simp_all add: example_unsized_layer_def)
  let ?L' = "example_unsized_layer\<lparr>l_nonlinearity := Some identity,
               l_params := (l_params example_unsized_layer)(''b'' := None), l_b := Present None\<rparr>"
  have sh: "incoming_shape (InLayer ?L') = [None, None]"
    by (simp add: incoming_shape_def example_unsized_layer_def)
  have pos: "\<not> has_non_positive_size [None, None]"
    by code_simp
  have ctor: "BatchNormSfhitPow2Layer (InLayer ?L') AxesNone (1 / 100000) (1 / 8) (Some rectify)
        = Inl configuration_error"
    unfolding constructor_result sh default_axes_in_range default_unspecified_kept_axis
    using pos by simp
  have helper: "batch_norm_pow_2 example_unsized_layer = (?L', Inl configuration_error)"
    using n b p ctor by (simp add: batch_norm_pow_2_def Let_def dict_del_def)
  have e: "snd (batch_norm_pow_2 example_unsized_layer) = Inl configuration_error"
    and i: "l_nonlinearity (fst (batch_norm_pow_2 example_unsized_layer)) = Some identity"
    and d: "''b'' \<notin> dom (l_params (fst (batch_norm_pow_2 example_unsized_layer)))"
    unfolding helper by simp_all
  show ?thesis
    by (rule conjI [OF n conjI [OF b conjI [OF p conjI [OF e conjI [OF i d]]]]])
qed

text \<open>
  Claim C9.  A forward call in either mode changes no field of the layer other than
  \<open>mean\<close> and \<open>std\<close>, and in inference mode it changes none.  The field \<open>centered\<close> is
  not written, and not read: with any other value \<open>c\<close> stored in it, the call returns the
  same tensor and the same layer, \<open>c\<close> still in place.
\<close>

theorem forward_frame:
  "snd (get_output_for lg rnd self x deterministic)
     = self\<lparr>mean := mean (snd (get_output_for lg rnd self x deterministic)),
            std := std (snd (get_output_for lg rnd self x deterministic))\<rparr>
   \<and> snd (get_output_for lg rnd self x True) = self
   \<and> centered (snd (get_output_for lg rnd self x deterministic)) = centered self
   \<and> get_output_for lg rnd (self\<lparr>centered := c\<rparr>) x deterministic
     = (fst (get_output_for lg rnd self x deterministic),
        (snd (get_output_for lg rnd self x deterministic))\<lparr>centered := c\<rparr>)"
  by (simp add: get_output_for_def Let_def)




end
